theory Spec2Isabelle
  imports
    Main
    "HOL-Library.Char_ord"
    "HOL-Library.List_Lexorder"
    "HOL-Library.Multiset"
    "HOL-Library.Word"
begin

section \<open>The coordination-service client (detector/zkclient.go)\<close>

subsection \<open>Data\<close>

text \<open>
  A Go \<^verbatim>\<open>error\<close> value is its message. A run-time panic (a nil connector
  dereferenced, a channel closed twice) is not an error value: it ends the process, and
  is the second constructor of \<open>result\<close>.
\<close>

datatype error = Error string

datatype 'a result = Ok 'a | Panic string

text \<open>
  \<^verbatim>\<open>zk.State\<close> and \<^verbatim>\<open>zk.EventType\<close> are declared by the ZooKeeper library.
  The client names five states and one event type; every other value of the library
  is \<open>StateOther\<close> or \<open>EventOther\<close>.
\<close>

datatype State =
    StateConnecting
  | StateConnected
  | StateSyncConnected
  | StateDisconnected
  | StateExpired
  | StateOther

datatype EventType = EventNodeChildrenChanged | EventOther

record Event =
  Type :: EventType
  State :: State
  Path :: string
  Err :: "error option"

text \<open>
  \<^verbatim>\<open>zkConnector\<close> is an interface over the library's connection. Its methods are
  the answers the server gives at the time of the call (the \<^verbatim>\<open>*zk.Stat\<close> results are
  dropped by every caller and left out; the channel of \<open>ChildrenW\<close> is the entry the
  call adds to \<open>watches\<close> below).
\<close>

record zkConnector =
  ChildrenW :: "string \<Rightarrow> error + string list"
  Children :: "string \<Rightarrow> error + string list"
  Get :: "string \<Rightarrow> error + 8 word list"

text \<open>
  The two watcher interfaces are framework code. A call is recorded in the trace of the
  world; the function says whether the call returns (\<open>True\<close>) or never does
  (\<open>False\<close>). What a callback itself does to the client is outside this model.
\<close>

type_synonym zkChildrenWatcher = "string \<Rightarrow> bool"

type_synonym zkErrorWatcher = "error \<Rightarrow> bool"

record zkClient =
  conn :: "zkConnector option"
  hosts :: "string list"
  connTimeout :: int
  connected :: bool
  stopCh :: "bool list option"
  rootPath :: string
  childrenWatcher :: "zkChildrenWatcher option"
  errorWatcher :: "zkErrorWatcher option"

text \<open>
  What the client does to the outside, in order: a call of \<^verbatim>\<open>zk.Connect\<close>, a call of
  \<^verbatim>\<open>conn.ChildrenW\<close> (an attempt to arm a watch), and the calls of the two watchers.
\<close>

datatype action =
    DoConnect "string list" int
  | DoChildrenW string
  | DoChildrenChanged string
  | DoErrorOccured error

text \<open>
  A goroutine started by \<^verbatim>\<open>connect\<close> is \<open>Listening closed\<close>, where \<open>closed\<close> says
  whether it has closed its \<^verbatim>\<open>waitConnCh\<close>, or \<open>Stuck\<close> inside a watcher that never
  returns. A goroutine started by \<^verbatim>\<open>watchChildren\<close> and waiting on its channel is the
  pair of the \<^verbatim>\<open>path\<close> and \<^verbatim>\<open>watchPath\<close> it has captured.
\<close>

datatype session = Listening bool | Stuck

record world =
  zkc :: zkClient
  sessions :: "session list"
  watches :: "(string \<times> string) list"
  trace :: "action list"

subsection \<open>Operations\<close>

definition second :: int where
  "second = 1000000000"

definition newZkClient :: "string list \<Rightarrow> string \<Rightarrow> zkClient \<times> error option" where
  "newZkClient hs path =
     (\<lparr>conn = None, hosts = hs, connTimeout = second * 5, connected = False,
       stopCh = None, rootPath = path, childrenWatcher = None, errorWatcher = None\<rparr>,
      None)"

definition disconnect :: "zkClient \<Rightarrow> error option \<times> zkClient" where
  "disconnect c = (None, c)"

text \<open>
  The guarded call \<^verbatim>\<open>if zkc.errorWatcher != nil { zkc.errorWatcher.errorOccured(zkc, err) }\<close>
  and its sibling for the children watcher. The boolean is whether control comes back.
\<close>

definition errorOccured :: "error \<Rightarrow> world \<Rightarrow> bool \<times> world" where
  "errorOccured err w =
     (case errorWatcher (zkc w) of
        None \<Rightarrow> (True, w)
      | Some fn \<Rightarrow> (fn err, w\<lparr>trace := trace w @ [DoErrorOccured err]\<rparr>))"

definition childrenChanged :: "string \<Rightarrow> world \<Rightarrow> bool \<times> world" where
  "childrenChanged p w =
     (case childrenWatcher (zkc w) of
        None \<Rightarrow> (True, w)
      | Some fn \<Rightarrow> (fn p, w\<lparr>trace := trace w @ [DoChildrenChanged p]\<rparr>))"

text \<open>
  One event \<open>e\<close> received by the \<open>i\<close>-th goroutine of \<^verbatim>\<open>connect\<close> (the body of its
  \<^verbatim>\<open>for { select { case e := <-ch: ... } }\<close>).
\<close>

definition session_event :: "nat \<Rightarrow> Event \<Rightarrow> world \<Rightarrow> world result" where
  "session_event i e w =
     (if length (sessions w) \<le> i then Ok w
      else case sessions w ! i of
        Stuck \<Rightarrow> Ok w
      | Listening closed \<Rightarrow>
          (let (back, w1) = (case Err e of None \<Rightarrow> (True, w) | Some err \<Rightarrow> errorOccured err w)
           in if \<not> back then Ok (w1\<lparr>sessions := (sessions w1)[i := Stuck]\<rparr>)
              else case State e of
                StateConnecting \<Rightarrow> Ok w1
              | StateConnected \<Rightarrow>
                  (if closed then Panic ''close of closed channel''
                   else Ok (w1\<lparr>zkc := (zkc w1)\<lparr>connected := True\<rparr>,
                                sessions := (sessions w1)[i := Listening True]\<rparr>))
              | StateSyncConnected \<Rightarrow> Ok (w1\<lparr>zkc := (zkc w1)\<lparr>connected := True\<rparr>\<rparr>)
              | StateDisconnected \<Rightarrow> Ok (w1\<lparr>zkc := snd (disconnect (zkc w1))\<rparr>)
              | StateExpired \<Rightarrow> Ok w1
              | StateOther \<Rightarrow> Ok w1))"

text \<open>
  The wait of \<^verbatim>\<open>connect\<close>: \<open>es\<close> are the events the session delivers. The goroutine
  reads every one of them, also after it has closed \<^verbatim>\<open>waitConnCh\<close>, so a second
  \<open>StateConnected\<close> panics. The result is \<open>True\<close> when some event closed
  \<^verbatim>\<open>waitConnCh\<close>, which lets \<^verbatim>\<open>connect\<close> return before the timer of
  \<^verbatim>\<open>time.After(zkc.connTimeout)\<close>, and \<open>False\<close> when none did and the timer fired.
\<close>

fun await_conn :: "nat \<Rightarrow> Event list \<Rightarrow> world \<Rightarrow> (bool \<times> world) result" where
  "await_conn i [] w = Ok (False, w)"
| "await_conn i (e # es) w =
     (case session_event i e w of
        Panic p \<Rightarrow> Panic p
      | Ok w' \<Rightarrow>
          (case await_conn i es w' of
             Panic p \<Rightarrow> Panic p
           | Ok (later, w'') \<Rightarrow>
               Ok ((i < length (sessions w') \<and> sessions w' ! i = Listening True) \<or> later, w'')))"

text \<open>
  \<^verbatim>\<open>connect\<close>. \<open>dial\<close> is what \<^verbatim>\<open>zk.Connect(zkc.hosts, zkc.connTimeout)\<close> returns
  (library code); the event channel it returns is the new entry of \<open>sessions\<close>.
\<close>

definition connect :: "error + zkConnector \<Rightarrow> Event list \<Rightarrow> world \<Rightarrow> (error option \<times> world) result" where
  "connect dial es w =
     (if connected (zkc w) then Ok (None, w)
      else
        let w0 = w\<lparr>trace := trace w @ [DoConnect (hosts (zkc w)) (connTimeout (zkc w))]\<rparr>
        in case dial of
          Inl err \<Rightarrow> Ok (Some err, w0)
        | Inr c \<Rightarrow>
            (let i = length (sessions w0);
                 w1 = w0\<lparr>zkc := (zkc w0)\<lparr>conn := Some c\<rparr>,
                         sessions := sessions w0 @ [Listening False]\<rparr>
             in case await_conn i es w1 of
               Panic p \<Rightarrow> Panic p
             | Ok (True, w2) \<Rightarrow>
                 (if \<not> connected (zkc w2)
                  then Ok (Some (Error ''Unabe to confirm connected state.''), w2)
                  else Ok (None, w2))
             | Ok (False, w2) \<Rightarrow>
                 Ok (Some (Error ''Unable to confirm connection after 5s.''), w2)))"

text \<open>
  The path \<^verbatim>\<open>watchChildren\<close> watches: the root path, extended by \<open>path\<close> unless
  that is empty or a dot.
\<close>

definition watchPath_of :: "zkClient \<Rightarrow> string \<Rightarrow> string" where
  "watchPath_of c path =
     (if path \<noteq> '''' \<and> path \<noteq> ''.'' then rootPath c @ path else rootPath c)"

text \<open>
  \<^verbatim>\<open>watchChildren\<close> up to the start of its goroutine, which becomes an entry of
  \<open>watches\<close>. A nil \<^verbatim>\<open>zkc.conn\<close> behind a true \<^verbatim>\<open>connected\<close> panics.
\<close>

definition watchChildren :: "string \<Rightarrow> world \<Rightarrow> (error option \<times> world) result" where
  "watchChildren path w =
     (if \<not> connected (zkc w) then Ok (Some (Error ''Not connected to server.''), w)
      else
        let watchPath = watchPath_of (zkc w) path
        in case conn (zkc w) of
          None \<Rightarrow> Panic ''nil pointer dereference''
        | Some c \<Rightarrow>
            (let w1 = w\<lparr>trace := trace w @ [DoChildrenW watchPath]\<rparr>
             in case ChildrenW c watchPath of
               Inl err \<Rightarrow> Ok (Some err, w1)
             | Inr children \<Rightarrow>
                 Ok (None, w1\<lparr>watches := watches w1 @ [(path, watchPath)]\<rparr>)))"

text \<open>
  The body of the goroutine of \<^verbatim>\<open>watchChildren\<close>, run when event \<open>e\<close> arrives on the
  channel of the armed watch \<open>wt\<close>: the error watcher, the children watcher, then
  \<^verbatim>\<open>zkc.watchChildren(path)\<close> again. A watcher that never returns ends the activity
  where it stands. An event for a watch that is not armed reaches no goroutine.
\<close>

definition watch_fired :: "string \<times> string \<Rightarrow> Event \<Rightarrow> world \<Rightarrow> world result" where
  "watch_fired wt e w =
     (if wt \<notin> set (watches w) then Ok w
      else
        let w0 = w\<lparr>watches := remove1 wt (watches w)\<rparr>;
            (back1, w1) = (case Err e of None \<Rightarrow> (True, w0) | Some err \<Rightarrow> errorOccured err w0)
        in if \<not> back1 then Ok w1
           else
             let (back2, w2) =
                   (case Type e of
                      EventNodeChildrenChanged \<Rightarrow> childrenChanged (Path e) w1
                    | EventOther \<Rightarrow> (True, w1))
             in if \<not> back2 then Ok w2
                else case watchChildren (fst wt) w2 of
                  Panic p \<Rightarrow> Panic p
                | Ok (None, w3) \<Rightarrow> Ok w3
                | Ok (Some err, w3) \<Rightarrow> Ok (snd (errorOccured err w3)))"

text \<open>\<^verbatim>\<open>sort.Strings\<close>: ascending, bytewise lexicographic order of Go strings.\<close>

definition sort_Strings :: "string list \<Rightarrow> string list" where
  "sort_Strings xs = sort xs"

definition list :: "zkClient \<Rightarrow> string \<Rightarrow> (error + string list) result" where
  "list c path =
     (if \<not> connected c then Ok (Inl (Error ''Unable to list children, client not connected.''))
      else case conn c of
        None \<Rightarrow> Panic ''nil pointer dereference''
      | Some k \<Rightarrow>
          (case Children k path of
             Inl err \<Rightarrow> Ok (Inl err)
           | Inr children \<Rightarrow> Ok (Inr (sort_Strings children))))"

definition data :: "zkClient \<Rightarrow> string \<Rightarrow> (error + 8 word list) result" where
  "data c path =
     (if \<not> connected c then Ok (Inl (Error ''Unable to retrieve node data, client not connected.''))
      else case conn c of
        None \<Rightarrow> Panic ''nil pointer dereference''
      | Some k \<Rightarrow>
          (case Get k path of
             Inl err \<Rightarrow> Ok (Inl err)
           | Inr d \<Rightarrow> Ok (Inr d)))"

subsection \<open>Fixtures of the client's tests\<close>

definition test_zk_hosts :: "string list" where
  "test_zk_hosts = [''localhost:2181'']"

definition test_zk_path :: string where
  "test_zk_path = ''/test''"

text \<open>
  The payload of the mock's \<open>Get\<close>:
  \<^verbatim>\<open>proto.Marshal(util.NewMasterInfo("master@localhost:5050", 123456789, 400))\<close>. Both
  functions are outside the sources; the bytes are the protocol-buffer wire form of the
  three values: field 1, the 21 bytes of the id; field 2, the varint of the ip; field 3,
  the varint of the port.
\<close>

definition master_info_data :: "8 word list" where
  "master_info_data =
     [0x0A, 0x15,
      0x6D, 0x61, 0x73, 0x74, 0x65, 0x72, 0x40, 0x6C, 0x6F, 0x63, 0x61, 0x6C, 0x68, 0x6F, 0x73,
      0x74, 0x3A, 0x35, 0x30, 0x35, 0x30,
      0x10, 0x95, 0x9A, 0xEF, 0x3A,
      0x18, 0x90, 0x03]"

text \<open>
  \<^verbatim>\<open>makeMockConnector\<close>: \<open>ChildrenW\<close> and \<open>Get\<close> are stubbed for \<open>path\<close> only,
  \<open>Children\<close> for every argument. A call the mock has no stub for is answered with an
  error here.
\<close>

definition makeMockConnector :: "string \<Rightarrow> zkConnector" where
  "makeMockConnector path =
     \<lparr>ChildrenW = (\<lambda>p. if p = path then Inr [path] else Inl (Error ''mock: unexpected call'')),
      Children = (\<lambda>p. Inr [''x'', ''a'', ''d'']),
      Get = (\<lambda>p. if p = path then Inr master_info_data
                 else Inl (Error ''mock: unexpected call''))\<rparr>"

definition new_world :: "zkClient \<Rightarrow> world" where
  "new_world c = \<lparr>zkc = c, sessions = [], watches = [], trace = []\<rparr>"

text \<open>
  \<^verbatim>\<open>makeZkClient\<close> followed by \<^verbatim>\<open>c.connect()\<close>: the connection is the mock, the
  session channel holds one \<open>StateConnected\<close> event and the watch channel one
  children-changed event. The test sets the type of the first and the state of the
  second to nothing; neither is read by the goroutine that receives the event.
\<close>

definition connected_event :: Event where
  "connected_event = \<lparr>Type = EventOther, State = StateConnected, Path = test_zk_path, Err = None\<rparr>"

definition children_event :: Event where
  "children_event =
     \<lparr>Type = EventNodeChildrenChanged, State = StateOther, Path = test_zk_path, Err = None\<rparr>"

definition makeZkClient :: zkClient where
  "makeZkClient = fst (newZkClient test_zk_hosts test_zk_path)"

definition connect_mock :: "world \<Rightarrow> (error option \<times> world) result" where
  "connect_mock w = connect (Inr (makeMockConnector test_zk_path)) [connected_event] w"

text \<open>The world that \<^verbatim>\<open>makeZkClient\<close> and one \<^verbatim>\<open>connect\<close> produce.\<close>

definition connected_world :: world where
  "connected_world =
     \<lparr>zkc = makeZkClient\<lparr>conn := Some (makeMockConnector test_zk_path), connected := True\<rparr>,
      sessions = [Listening True], watches = [],
      trace = [DoConnect test_zk_hosts (second * 5)]\<rparr>"

text \<open>
  A connected client with a children watcher \<open>fn\<close>, and the world after its
  \<^verbatim>\<open>watchChildren(".")\<close>, as in \<^verbatim>\<open>TestZkClientWatchChildren\<close>.
\<close>

definition watching_client :: "zkChildrenWatcher \<Rightarrow> world" where
  "watching_client fn = connected_world\<lparr>zkc := (zkc connected_world)\<lparr>childrenWatcher := Some fn\<rparr>\<rparr>"

definition armed_world :: "zkChildrenWatcher \<Rightarrow> world" where
  "armed_world fn =
     (watching_client fn)\<lparr>watches := [(''.'', test_zk_path)],
                           trace := trace connected_world @ [DoChildrenW test_zk_path]\<rparr>"

text \<open>A children watcher that returns, and one that never does.\<close>

definition returning_watcher :: zkChildrenWatcher where
  "returning_watcher p = True"

definition blocking_watcher :: zkChildrenWatcher where
  "blocking_watcher p = False"

text \<open>
  The armed world after the watched node has gone: the connector now refuses the watch.
  And the event of the watch that says so, which is not a children-changed one.
\<close>

definition refusing_connector :: zkConnector where
  "refusing_connector =
     \<lparr>ChildrenW = (\<lambda>p. Inl (Error ''zk: node does not exist'')),
      Children = (\<lambda>p. Inl (Error ''zk: node does not exist'')),
      Get = (\<lambda>p. Inl (Error ''zk: node does not exist''))\<rparr>"

definition refused_world :: world where
  "refused_world =
     (armed_world returning_watcher)
       \<lparr>zkc := (zkc (armed_world returning_watcher))\<lparr>conn := Some refusing_connector\<rparr>\<rparr>"

definition node_deleted_event :: Event where
  "node_deleted_event =
     \<lparr>Type = EventOther, State = StateOther, Path = test_zk_path, Err = None\<rparr>"

text \<open>The session events of a lost session.\<close>

definition disconnected_event :: Event where
  "disconnected_event = \<lparr>Type = EventOther, State = StateDisconnected, Path = [], Err = None\<rparr>"

definition expired_event :: Event where
  "expired_event = \<lparr>Type = EventOther, State = StateExpired, Path = [], Err = None\<rparr>"

text \<open>
  The error calls an event causes before anything else: none without \<^verbatim>\<open>e.Err\<close> or
  without an error watcher.
\<close>

definition error_calls :: "zkClient \<Rightarrow> Event \<Rightarrow> action list" where
  "error_calls c e =
     (case Err e of
        None \<Rightarrow> []
      | Some err \<Rightarrow> (case errorWatcher c of None \<Rightarrow> [] | Some g \<Rightarrow> [DoErrorOccured err]))"

text \<open>Whether the error watcher, if the event calls it, gives control back.\<close>

definition error_watcher_returns :: "zkClient \<Rightarrow> Event \<Rightarrow> bool" where
  "error_watcher_returns c e =
     (case Err e of
        None \<Rightarrow> True
      | Some err \<Rightarrow> (case errorWatcher c of None \<Rightarrow> True | Some g \<Rightarrow> g err))"

text \<open>
  The same for the children watcher: it is called for a children-changed event only,
  and only when one is registered.
\<close>

definition children_calls :: "zkClient \<Rightarrow> Event \<Rightarrow> action list" where
  "children_calls c e =
     (case Type e of
        EventNodeChildrenChanged \<Rightarrow>
          (case childrenWatcher c of None \<Rightarrow> [] | Some fn \<Rightarrow> [DoChildrenChanged (Path e)])
      | EventOther \<Rightarrow> [])"

definition children_watcher_returns :: "zkClient \<Rightarrow> Event \<Rightarrow> bool" where
  "children_watcher_returns c e =
     (case Type e of
        EventNodeChildrenChanged \<Rightarrow>
          (case childrenWatcher c of None \<Rightarrow> True | Some fn \<Rightarrow> fn (Path e))
      | EventOther \<Rightarrow> True)"

section \<open>The scheduler driver\<close>

subsection \<open>Data\<close>

text \<open>
  Modelled from the spec: the status enumeration is declared outside the sources (the
  tests name its values \<^verbatim>\<open>mesos.Status_DRIVER_...\<close>). Section 3: \<open>NOT_STARTED\<close>,
  \<open>RUNNING\<close>, and the terminal \<open>STOPPED\<close> and \<open>ABORTED\<close>.
\<close>

datatype Status =
    DRIVER_NOT_STARTED
  | DRIVER_RUNNING
  | DRIVER_ABORTED
  | DRIVER_STOPPED

text \<open>
  Modelled from the spec: the messages are declared outside the sources. Section 4.2
  names the registration, the task launch (offer, tasks, filters) and the task kill;
  the unregistration is the one \<open>failover\<close> suppresses.
\<close>

datatype message =
    RegisterFrameworkMessage
  | UnregisterFrameworkMessage
  | LaunchTasksMessage string "string list" string
  | KillTaskMessage string

text \<open>
  Modelled from the spec: the Messenger (the transport of section 4.2 and section 6) is
  not among the sources; the driver's tests replace it by a mock whose \<^verbatim>\<open>Start\<close> and
  \<^verbatim>\<open>Send\<close> return what the test has configured. \<open>start_result\<close> and \<open>send_result\<close>
  are those answers, \<open>running\<close> says whether the transport is up, and \<open>sends\<close> lists
  every message handed to \<^verbatim>\<open>Send\<close>, delivered or not.
\<close>

record Messenger =
  start_result :: "error option"
  send_result :: "error option"
  running :: bool
  sends :: "message list"

text \<open>
  Modelled from the spec: the driver's type is not among the sources. The fields are
  those the tests read (\<^verbatim>\<open>status\<close>, \<^verbatim>\<open>stopped\<close>, \<^verbatim>\<open>connected\<close>, \<^verbatim>\<open>messenger\<close>)
  and the stop signal \<^verbatim>\<open>stopCh\<close>, here the flag that says whether it has fired.
\<close>

record MesosSchedulerDriver =
  status :: Status
  stopped :: bool
  driver_connected :: bool
  stopCh_closed :: bool
  messenger :: Messenger

subsection \<open>Operations\<close>

text \<open>
  Modelled from the spec: the mock of the Messenger is not among the sources. The tests
  configure what its \<^verbatim>\<open>Start\<close> and \<^verbatim>\<open>Send\<close> return; it is not running and has
  sent nothing.
\<close>

definition NewMockedMessenger :: "error option \<Rightarrow> error option \<Rightarrow> Messenger" where
  "NewMockedMessenger start_ret send_ret =
     \<lparr>start_result = start_ret, send_result = send_ret, running = False, sends = []\<rparr>"

text \<open>
  Modelled from the spec: \<^verbatim>\<open>Send\<close> of the Messenger is not among the sources. It
  answers what the transport answers at the time and records the message.
\<close>

definition Send :: "message \<Rightarrow> Messenger \<Rightarrow> error option \<times> Messenger" where
  "Send msg m = (send_result m, m\<lparr>sends := sends m @ [msg]\<rparr>)"

text \<open>
  Modelled from the spec: the constructor is not among the sources. Section 4.2:
  initial status \<open>NOT_STARTED\<close>, initial \<open>stopped = true\<close>. The parsing of the master
  address and the defaults of the framework descriptor play no part below and are left
  out; the messenger is the one the tests install right after construction.
\<close>

definition NewMesosSchedulerDriver :: "Messenger \<Rightarrow> MesosSchedulerDriver" where
  "NewMesosSchedulerDriver m =
     \<lparr>status = DRIVER_NOT_STARTED, stopped = True, driver_connected = False,
      stopCh_closed = False, messenger = m\<rparr>"

text \<open>
  Modelled from the spec: the body of \<^verbatim>\<open>Start\<close> is not among the sources. Section
  4.2: a driver that is not \<open>NOT_STARTED\<close> returns its status unchanged; a Messenger
  that fails to start leaves status \<open>NOT_STARTED\<close>, which is returned; on success the
  \<open>RegisterFramework\<close> message is sent, status becomes \<open>RUNNING\<close> and \<open>stopped\<close>
  becomes false; if that send fails the driver still reports \<open>RUNNING\<close> (section 7: a
  send failure is non-fatal to the driver's lifecycle).
\<close>

definition Start :: "MesosSchedulerDriver \<Rightarrow> Status \<times> MesosSchedulerDriver" where
  "Start d =
     (if status d \<noteq> DRIVER_NOT_STARTED then (status d, d)
      else case start_result (messenger d) of
        Some err \<Rightarrow> (DRIVER_NOT_STARTED, d\<lparr>status := DRIVER_NOT_STARTED\<rparr>)
      | None \<Rightarrow>
          (let (r, m) = Send RegisterFrameworkMessage ((messenger d)\<lparr>running := True\<rparr>)
           in case r of
             Some err \<Rightarrow>
               (DRIVER_RUNNING,
                d\<lparr>status := DRIVER_RUNNING, stopped := False, stopCh_closed := False,
                  messenger := m\<rparr>)
           | None \<Rightarrow>
               (DRIVER_RUNNING,
                d\<lparr>status := DRIVER_RUNNING, stopped := False, stopCh_closed := False,
                  messenger := m\<rparr>)))"

text \<open>
  Modelled from the spec: \<^verbatim>\<open>Stop\<close> is not among the sources. Section 4.2: a driver
  that is not started returns its status unchanged (a terminal status stays as it is,
  by the table of the same section); otherwise the stop signal is closed, the Messenger
  stopped, \<open>stopped\<close> set and status \<open>STOPPED\<close> returned. Without \<open>failover\<close> the
  framework is unregistered first.
\<close>

definition Stop :: "bool \<Rightarrow> MesosSchedulerDriver \<Rightarrow> Status \<times> MesosSchedulerDriver" where
  "Stop failover d =
     (if status d \<noteq> DRIVER_RUNNING then (status d, d)
      else
        let m = (if failover then messenger d
                 else snd (Send UnregisterFrameworkMessage (messenger d)))
        in (DRIVER_STOPPED,
            d\<lparr>stopCh_closed := True, messenger := m\<lparr>running := False\<rparr>, stopped := True,
              status := DRIVER_STOPPED\<rparr>))"

text \<open>
  Modelled from the spec: \<^verbatim>\<open>Abort\<close> is not among the sources. Section 4.2: only
  meaningful while \<open>RUNNING\<close>; marks \<open>connected = false\<close>, stops the Messenger, sets
  \<open>stopped\<close> and status \<open>ABORTED\<close>, and signals the termination to the caller of
  \<^verbatim>\<open>Join\<close> or \<^verbatim>\<open>Run\<close>, which waits on the stop signal.
\<close>

definition Abort :: "MesosSchedulerDriver \<Rightarrow> Status \<times> MesosSchedulerDriver" where
  "Abort d =
     (if status d \<noteq> DRIVER_RUNNING then (status d, d)
      else
        (DRIVER_ABORTED,
         d\<lparr>driver_connected := False, messenger := (messenger d)\<lparr>running := False\<rparr>,
           stopped := True, status := DRIVER_ABORTED, stopCh_closed := True\<rparr>))"

text \<open>
  Modelled from the spec: \<^verbatim>\<open>LaunchTasks\<close> is not among the sources. Section 4.2: a
  driver that is not started returns its status; otherwise the task-launch message is
  built and sent, and the status is returned whatever the send answered.
\<close>

definition LaunchTasks ::
  "string \<Rightarrow> string list \<Rightarrow> string \<Rightarrow> MesosSchedulerDriver \<Rightarrow> Status \<times> MesosSchedulerDriver" where
  "LaunchTasks offerID tasks filters d =
     (if status d \<noteq> DRIVER_RUNNING then (status d, d)
      else
        let (r, m) = Send (LaunchTasksMessage offerID tasks filters) (messenger d)
        in (status d, d\<lparr>messenger := m\<rparr>))"

text \<open>
  Modelled from the spec: \<^verbatim>\<open>KillTask\<close> is not among the sources. Section 4.2: as
  \<^verbatim>\<open>LaunchTasks\<close>, with the kill-task message.
\<close>

definition KillTask :: "string \<Rightarrow> MesosSchedulerDriver \<Rightarrow> Status \<times> MesosSchedulerDriver" where
  "KillTask taskID d =
     (if status d \<noteq> DRIVER_RUNNING then (status d, d)
      else
        let (r, m) = Send (KillTaskMessage taskID) (messenger d)
        in (status d, d\<lparr>messenger := m\<rparr>))"

text \<open>
  Modelled from the spec: the calls other activities make on the driver while one
  caller waits in \<^verbatim>\<open>Join\<close>. Section 5 puts every control operation in one critical
  section, so a concurrent run is a sequence of whole calls.
\<close>

datatype call =
    CallStop bool
  | CallAbort
  | CallLaunchTasks string "string list" string
  | CallKillTask string

fun perform :: "call \<Rightarrow> MesosSchedulerDriver \<Rightarrow> Status \<times> MesosSchedulerDriver" where
  "perform (CallStop failover) d = Stop failover d"
| "perform CallAbort d = Abort d"
| "perform (CallLaunchTasks offerID tasks filters) d = LaunchTasks offerID tasks filters d"
| "perform (CallKillTask taskID) d = KillTask taskID d"

text \<open>
  Modelled from the spec: the wait of \<^verbatim>\<open>Join\<close> on the stop signal (section 4.2, and
  section 5: the waiting caller does not hold the lock). The calls of \<open>cs\<close> happen one
  after the other until the signal has fired; then the status is read. \<open>None\<close> is a
  caller still blocked when \<open>cs\<close> is used up.
\<close>

fun await_stop :: "MesosSchedulerDriver \<Rightarrow> call list \<Rightarrow> (Status \<times> MesosSchedulerDriver) option" where
  "await_stop d [] = (if stopCh_closed d then Some (status d, d) else None)"
| "await_stop d (c # cs) =
     (if stopCh_closed d then Some (status d, d) else await_stop (snd (perform c d)) cs)"

text \<open>
  Modelled from the spec: \<^verbatim>\<open>Join\<close> is not among the sources. Section 4.2: called
  before \<^verbatim>\<open>Start\<close> it returns \<open>NOT_STARTED\<close> at once; otherwise it blocks until
  the stop signal fires and returns the final status.
\<close>

definition Join :: "MesosSchedulerDriver \<Rightarrow> call list \<Rightarrow> (Status \<times> MesosSchedulerDriver) option" where
  "Join d cs =
     (if status d = DRIVER_NOT_STARTED then Some (DRIVER_NOT_STARTED, d)
      else await_stop d cs)"

text \<open>
  Modelled from the spec: \<^verbatim>\<open>Run\<close> is not among the sources. Section 4.2:
  \<^verbatim>\<open>Start\<close> then \<^verbatim>\<open>Join\<close>, returning what \<^verbatim>\<open>Join\<close> returns.
\<close>

definition Run :: "MesosSchedulerDriver \<Rightarrow> call list \<Rightarrow> (Status \<times> MesosSchedulerDriver) option" where
  "Run d cs = Join (snd (Start d)) cs"

text \<open>The task-control calls among the calls of a schedule.\<close>

definition task_control :: "call \<Rightarrow> bool" where
  "task_control c = (case c of CallLaunchTasks _ _ _ \<Rightarrow> True | CallKillTask _ \<Rightarrow> True | _ \<Rightarrow> False)"

subsection \<open>The driver's tests\<close>

text \<open>
  The tests of the driver are among the sources (scheduler tests, after the client's).
  Each is the conjunction of its assertions, read on the model of the driver above. A test that runs \<^verbatim>\<open>Run\<close> on a second
  goroutine and then calls the driver from the first is the run whose schedule holds
  those calls. \<^verbatim>\<open>messenger.On("Send").Return(err)\<close> after the start sets the answer
  of the transport from then on.
\<close>

definition registration_failure_driver :: MesosSchedulerDriver where
  "registration_failure_driver =
     NewMesosSchedulerDriver (NewMockedMessenger None (Some (Error ''messenger failed to send'')))"

definition messenger_failure_driver :: MesosSchedulerDriver where
  "messenger_failure_driver =
     NewMesosSchedulerDriver (NewMockedMessenger (Some (Error ''Failed to start messenger'')) None)"

definition unstarted_driver :: MesosSchedulerDriver where
  "unstarted_driver = NewMesosSchedulerDriver (NewMockedMessenger None None)"

definition started_driver :: MesosSchedulerDriver where
  "started_driver = snd (Start unstarted_driver)"

definition send_failing_driver :: MesosSchedulerDriver where
  "send_failing_driver =
     started_driver\<lparr>driver_connected := True,
       messenger := (messenger started_driver)\<lparr>send_result := Some (Error ''Unable to send message'')\<rparr>\<rparr>"

definition TestSchedulerDriverStartOK :: bool where
  "TestSchedulerDriverStartOK =
     (let driver = unstarted_driver; (stat, driver') = Start driver
      in stopped driver \<and> \<not> stopped driver' \<and> stat = DRIVER_RUNNING)"

definition TestSchedulerDriverStartWithMessengerFailure :: bool where
  "TestSchedulerDriverStartWithMessengerFailure =
     (let driver = messenger_failure_driver; (stat, driver') = Start driver
      in stopped driver \<and> stopped driver' \<and> status driver' = DRIVER_NOT_STARTED \<and>
         stat = DRIVER_NOT_STARTED)"

definition TestSchedulerDriverStartWithRegistrationFailure :: bool where
  "TestSchedulerDriverStartWithRegistrationFailure =
     (let driver = registration_failure_driver; (stat, driver') = Start driver
      in stopped driver \<and> stopped driver' \<and> status driver' = DRIVER_NOT_STARTED \<and>
         stat = DRIVER_NOT_STARTED)"

definition TestSchedulerDriverJoinUnstarted :: bool where
  "TestSchedulerDriverJoinUnstarted =
     (let driver = unstarted_driver
      in stopped driver \<and> map_option fst (Join driver []) = Some DRIVER_NOT_STARTED)"

definition TestSchedulerDriverStopUnstarted :: bool where
  "TestSchedulerDriverStopUnstarted =
     (let driver = unstarted_driver; (stat, driver') = Stop True driver
      in stopped driver \<and> stopped driver' \<and> stat = DRIVER_NOT_STARTED)"

definition TestSchdulerDriverStopOK :: bool where
  "TestSchdulerDriverStopOK =
     (let driver = unstarted_driver; driver1 = snd (Start driver);
          driver2 = snd (Stop False driver1)
      in stopped driver \<and>
         map_option fst (Run driver [CallStop False]) = Some DRIVER_STOPPED \<and>
         \<not> stopped driver1 \<and> status driver1 = DRIVER_RUNNING \<and>
         stopped driver2 \<and> status driver2 = DRIVER_STOPPED)"

definition TestSchdulerDriverAbort :: bool where
  "TestSchdulerDriverAbort =
     (let driver = unstarted_driver;
          driver1 = (snd (Start driver))\<lparr>driver_connected := True\<rparr>;
          (stat, driver2) = Abort driver1
      in stopped driver \<and>
         map_option fst (Run driver [CallAbort]) = Some DRIVER_ABORTED \<and>
         \<not> stopped driver1 \<and> status driver1 = DRIVER_RUNNING \<and>
         stopped driver2 \<and> stat = DRIVER_ABORTED \<and> status driver2 = DRIVER_ABORTED)"

definition TestLunchTasksUnstarted :: bool where
  "TestLunchTasksUnstarted =
     (let driver = unstarted_driver
      in stopped driver \<and> fst (LaunchTasks '''' [] '''' driver) = DRIVER_NOT_STARTED)"

definition TestLaunchTasksWithError :: bool where
  "TestLaunchTasksWithError =
     (let driver = unstarted_driver; driver1 = (snd (Start driver))\<lparr>driver_connected := True\<rparr>;
          driver2 = driver1\<lparr>messenger :=
                      (messenger driver1)\<lparr>send_result := Some (Error ''Unable to send message'')\<rparr>\<rparr>
      in stopped driver \<and> \<not> stopped driver1 \<and> status driver1 = DRIVER_RUNNING \<and>
         fst (LaunchTasks '''' [''simple-task''] '''' driver2) = DRIVER_RUNNING)"

definition TestKillTask :: bool where
  "TestKillTask =
     (let driver = unstarted_driver; driver1 = (snd (Start driver))\<lparr>driver_connected := True\<rparr>
      in stopped driver \<and> \<not> stopped driver1 \<and> status driver1 = DRIVER_RUNNING \<and>
         fst (KillTask ''test-task-1'' driver1) = DRIVER_RUNNING)"

section \<open>Properties of the client\<close>

subsection \<open>Reaching the fixtures\<close>

text \<open>
  The fixture worlds are what the client's own operations produce from a new client.
\<close>

lemma connect_mock_new_world:
  "connect_mock (new_world makeZkClient) = Ok (None, connected_world)"
  by (simp add: connect_mock_def connect_def new_world_def makeZkClient_def newZkClient_def
      session_event_def connected_event_def disconnect_def connected_world_def)

text \<open>A second \<open>StateConnected\<close> on the session closes the closed channel.\<close>

lemma connect_second_connected_panics:
  "connect (Inr (makeMockConnector test_zk_path)) [connected_event, connected_event]
     (new_world makeZkClient) = Panic ''close of closed channel''"
  by (simp add: connect_def new_world_def makeZkClient_def newZkClient_def
      session_event_def connected_event_def disconnect_def)

lemma watchChildren_armed_world:
  "watchChildren ''.'' (watching_client fn) = Ok (None, armed_world fn)"
  by (simp add: watchChildren_def watching_client_def armed_world_def connected_world_def
      makeZkClient_def newZkClient_def watchPath_of_def makeMockConnector_def Let_def)

lemma armed_world_facts:
  "(''.'', test_zk_path) \<in> set (watches (armed_world fn))"
  "connected (zkc (armed_world fn))"
  "conn (zkc (armed_world fn)) = Some (makeMockConnector test_zk_path)"
  "test_zk_path = watchPath_of (zkc (armed_world fn)) ''.''"
  "ChildrenW (makeMockConnector test_zk_path) test_zk_path = Inr [test_zk_path]"
  "childrenWatcher (zkc (armed_world fn)) = Some fn"
  "error_watcher_returns (zkc (armed_world fn)) children_event"
  "Type children_event = EventNodeChildrenChanged"
  "Path children_event = test_zk_path"
  "error_calls (zkc (armed_world fn)) children_event = []"
  "trace (armed_world fn) = [DoConnect test_zk_hosts (second * 5), DoChildrenW test_zk_path]"
  by (simp_all add: armed_world_def watching_client_def connected_world_def makeZkClient_def
      newZkClient_def watchPath_of_def makeMockConnector_def children_event_def
      error_watcher_returns_def error_calls_def)

lemma connected_world_facts:
  "connected (zkc connected_world)"
  "conn (zkc connected_world) = Some (makeMockConnector test_zk_path)"
  "Children (makeMockConnector test_zk_path) p = Inr [''x'', ''a'', ''d'']"
  "\<not> connected makeZkClient"
  by (simp_all add: connected_world_def makeZkClient_def newZkClient_def makeMockConnector_def)

subsection \<open>connect\<close>

text \<open>
  C6. \<^verbatim>\<open>connect\<close> on a client whose \<open>connected\<close> flag is set returns nil and leaves
  the whole world as it was: no call of \<^verbatim>\<open>zk.Connect\<close> is added to the trace, no
  session goroutine is started, and \<open>connected\<close> is still true. This holds whatever
  the library would have answered (\<open>dial\<close>) and whatever events were pending (\<open>es\<close>).
\<close>

theorem connect_idempotent:
  "connected (zkc w) \<Longrightarrow> connect dial es w = Ok (None, w)"
  by (simp add: connect_def)

theorem connect_idempotent_witness:
  "connect_mock (new_world makeZkClient) = Ok (None, connected_world) \<and>
   connected (zkc connected_world) \<and>
   connect_mock connected_world = Ok (None, connected_world) \<and>
   trace connected_world = [DoConnect test_zk_hosts (second * 5)]"
proof -
  have c: "connected (zkc connected_world)"
    by (rule connected_world_facts)
  have "connect_mock connected_world = Ok (None, connected_world)"
    unfolding connect_mock_def using connect_idempotent [OF c] .
  moreover have "trace connected_world = [DoConnect test_zk_hosts (second * 5)]"
    by (simp add: connected_world_def)
  ultimately show ?thesis
    using c connect_mock_new_world by simp
qed

subsection \<open>list\<close>

text \<open>
  C7. On a client that is not connected \<^verbatim>\<open>list\<close> fails with its not-connected error.
  On a connected client whose connector answers \<^verbatim>\<open>Children(path)\<close> with the names
  \<open>cs\<close>, \<^verbatim>\<open>list\<close> returns \<open>sort cs\<close>: ascending in the bytewise order of strings and
  with the same names, each as often as in \<open>cs\<close>.
\<close>

theorem list_sorted:
  "(\<not> connected c \<longrightarrow>
      list c path = Ok (Inl (Error ''Unable to list children, client not connected.''))) \<and>
   (connected c \<and> conn c = Some k \<and> Children k path = Inr cs \<longrightarrow>
      list c path = Ok (Inr (sort cs)) \<and> sorted (sort cs) \<and> mset (sort cs) = mset cs)"
  by (simp add: list_def sort_Strings_def)

theorem list_sorted_witness:
  "list makeZkClient test_zk_path =
     Ok (Inl (Error ''Unable to list children, client not connected.'')) \<and>
   list (zkc connected_world) test_zk_path = Ok (Inr [''a'', ''d'', ''x''])"
proof -
  have s: "sort [''x'', ''a'', ''d''] = [''a'', ''d'', ''x'']"
    by code_simp
  have "list makeZkClient test_zk_path =
     Ok (Inl (Error ''Unable to list children, client not connected.''))"
    using list_sorted [where c = makeZkClient and path = test_zk_path] connected_world_facts(4)
    by blast
  moreover have "list (zkc connected_world) test_zk_path = Ok (Inr (sort [''x'', ''a'', ''d'']))"
    using list_sorted [where c = "zkc connected_world" and path = test_zk_path
        and k = "makeMockConnector test_zk_path" and cs = "[''x'', ''a'', ''d'']"]
      connected_world_facts(1,2,3)
    by blast
  ultimately show ?thesis
    by (simp only: s)
qed

subsection \<open>watchChildren\<close>

lemma errorOccured_split:
  "error_watcher_returns (zkc w) e \<Longrightarrow>
   (case Err e of None \<Rightarrow> (True, w) | Some err \<Rightarrow> errorOccured err w) =
     (True, w\<lparr>trace := trace w @ error_calls (zkc w) e\<rparr>)"
  by (simp add: error_watcher_returns_def error_calls_def errorOccured_def
      split: option.splits)

lemma childrenChanged_split:
  "children_watcher_returns (zkc w) e \<Longrightarrow>
   (case Type e of
      EventNodeChildrenChanged \<Rightarrow> childrenChanged (Path e) w
    | EventOther \<Rightarrow> (True, w)) =
     (True, w\<lparr>trace := trace w @ children_calls (zkc w) e\<rparr>)"
  by (simp add: children_watcher_returns_def children_calls_def childrenChanged_def
      split: EventType.splits option.splits)

lemma watch_fired_step:
  assumes armed: "(path, wp) \<in> set (watches w)"
    and con: "connected (zkc w)" "conn (zkc w) = Some k"
    and wp: "wp = watchPath_of (zkc w) path"
    and ew: "error_watcher_returns (zkc w) e"
    and cw: "children_watcher_returns (zkc w) e"
    and srv: "ChildrenW k wp = Inr cs"
  shows "watch_fired (path, wp) e w =
     Ok (w\<lparr>watches := remove1 (path, wp) (watches w) @ [(path, wp)],
           trace := trace w @ error_calls (zkc w) e @ children_calls (zkc w) e @ [DoChildrenW wp]\<rparr>)"
proof -
  let ?w0 = "w\<lparr>watches := remove1 (path, wp) (watches w)\<rparr>"
  let ?w1 = "w\<lparr>watches := remove1 (path, wp) (watches w),
               trace := trace w @ error_calls (zkc w) e\<rparr>"
  let ?w2 = "w\<lparr>watches := remove1 (path, wp) (watches w),
               trace := trace w @ error_calls (zkc w) e @ children_calls (zkc w) e\<rparr>"
  have s1: "(case Err e of None \<Rightarrow> (True, ?w0) | Some err \<Rightarrow> errorOccured err ?w0) = (True, ?w1)"
    using errorOccured_split [of ?w0 e] ew by simp
  have s2: "(case Type e of
               EventNodeChildrenChanged \<Rightarrow> childrenChanged (Path e) ?w1
             | EventOther \<Rightarrow> (True, ?w1)) = (True, ?w2)"
    using childrenChanged_split [of ?w1 e] cw by simp
  have s3: "watchChildren path ?w2 =
      Ok (None, w\<lparr>watches := remove1 (path, wp) (watches w) @ [(path, wp)],
                   trace := trace w @ error_calls (zkc w) e @ children_calls (zkc w) e @
                     [DoChildrenW wp]\<rparr>)"
    using con srv by (simp add: watchChildren_def Let_def wp [symmetric])
  show ?thesis
    using armed by (simp add: watch_fired_def s1 s2 s3 Let_def)
qed

lemma watch_fired_refused:
  assumes armed: "(path, wp) \<in> set (watches w)"
    and con: "connected (zkc w)" "conn (zkc w) = Some k"
    and wp: "wp = watchPath_of (zkc w) path"
    and ew: "error_watcher_returns (zkc w) e"
    and cw: "children_watcher_returns (zkc w) e"
    and srv: "ChildrenW k wp = Inl err"
  shows "watch_fired (path, wp) e w =
     Ok (w\<lparr>watches := remove1 (path, wp) (watches w),
           trace := trace w @ error_calls (zkc w) e @ children_calls (zkc w) e @
             DoChildrenW wp #
             (case errorWatcher (zkc w) of None \<Rightarrow> [] | Some g \<Rightarrow> [DoErrorOccured err])\<rparr>)"
proof -
  let ?w0 = "w\<lparr>watches := remove1 (path, wp) (watches w)\<rparr>"
  let ?w1 = "w\<lparr>watches := remove1 (path, wp) (watches w),
               trace := trace w @ error_calls (zkc w) e\<rparr>"
  let ?w2 = "w\<lparr>watches := remove1 (path, wp) (watches w),
               trace := trace w @ error_calls (zkc w) e @ children_calls (zkc w) e\<rparr>"
  let ?w3 = "w\<lparr>watches := remove1 (path, wp) (watches w),
               trace := trace w @ error_calls (zkc w) e @ children_calls (zkc w) e @
                 [DoChildrenW wp]\<rparr>"
  have s1: "(case Err e of None \<Rightarrow> (True, ?w0) | Some err \<Rightarrow> errorOccured err ?w0) = (True, ?w1)"
    using errorOccured_split [of ?w0 e] ew by simp
  have s2: "(case Type e of
               EventNodeChildrenChanged \<Rightarrow> childrenChanged (Path e) ?w1
             | EventOther \<Rightarrow> (True, ?w1)) = (True, ?w2)"
    using childrenChanged_split [of ?w1 e] cw by simp
  have s3: "watchChildren path ?w2 = Ok (Some err, ?w3)"
    using con srv by (simp add: watchChildren_def Let_def wp [symmetric])
  have s4: "snd (errorOccured err ?w3) =
      w\<lparr>watches := remove1 (path, wp) (watches w),
         trace := trace w @ error_calls (zkc w) e @ children_calls (zkc w) e @
           DoChildrenW wp #
           (case errorWatcher (zkc w) of None \<Rightarrow> [] | Some g \<Rightarrow> [DoErrorOccured err])\<rparr>"
    by (simp add: errorOccured_def split: option.splits)
  show ?thesis
    using armed by (simp add: watch_fired_def s1 s2 s3 s4 Let_def)
qed

lemma refused_world_facts:
  "(''.'', test_zk_path) \<in> set (watches refused_world)"
  "watches refused_world = [(''.'', test_zk_path)]"
  "connected (zkc refused_world)"
  "conn (zkc refused_world) = Some refusing_connector"
  "test_zk_path = watchPath_of (zkc refused_world) ''.''"
  "ChildrenW refusing_connector test_zk_path = Inl (Error ''zk: node does not exist'')"
  "errorWatcher (zkc refused_world) = None"
  "error_watcher_returns (zkc refused_world) children_event"
  "children_watcher_returns (zkc refused_world) children_event"
  "error_calls (zkc refused_world) children_event = []"
  "children_calls (zkc refused_world) children_event = [DoChildrenChanged test_zk_path]"
  "trace refused_world = [DoConnect test_zk_hosts (second * 5), DoChildrenW test_zk_path]"
  by (simp_all add: refused_world_def refusing_connector_def armed_world_def watching_client_def
      connected_world_def makeZkClient_def newZkClient_def watchPath_of_def children_event_def
      error_watcher_returns_def children_watcher_returns_def error_calls_def children_calls_def
      returning_watcher_def)

lemma node_deleted_event_facts:
  "error_watcher_returns (zkc (armed_world fn)) node_deleted_event"
  "children_watcher_returns (zkc (armed_world fn)) node_deleted_event"
  "error_calls (zkc (armed_world fn)) node_deleted_event = []"
  "children_calls (zkc (armed_world fn)) node_deleted_event = []"
  "watches (armed_world fn) = [(''.'', test_zk_path)]"
  by (simp_all add: error_watcher_returns_def children_watcher_returns_def error_calls_def
      children_calls_def node_deleted_event_def armed_world_def)

text \<open>
  C8, as stated, fails at two firings of the armed watch of the fixture. When the
  connector refuses the new watch, a children-changed event calls the watcher and
  \<^verbatim>\<open>ChildrenW\<close>, and no watch is armed afterwards: a second change reaches no
  goroutine. When the event is not a children-changed one, the watcher is not called
  (the watch is re-armed all the same).
\<close>

theorem every_firing_rearms_counterexample:
  "watch_fired (''.'', test_zk_path) children_event refused_world =
     Ok (refused_world
           \<lparr>watches := [],
            trace := [DoConnect test_zk_hosts (second * 5), DoChildrenW test_zk_path,
                      DoChildrenChanged test_zk_path, DoChildrenW test_zk_path]\<rparr>) \<and>
   watch_fired (''.'', test_zk_path) node_deleted_event (armed_world returning_watcher) =
     Ok ((armed_world returning_watcher)
           \<lparr>watches := [(''.'', test_zk_path)],
            trace := [DoConnect test_zk_hosts (second * 5), DoChildrenW test_zk_path,
                      DoChildrenW test_zk_path]\<rparr>)"
proof
  show "watch_fired (''.'', test_zk_path) children_event refused_world =
     Ok (refused_world
           \<lparr>watches := [],
            trace := [DoConnect test_zk_hosts (second * 5), DoChildrenW test_zk_path,
                      DoChildrenChanged test_zk_path, DoChildrenW test_zk_path]\<rparr>)"
    using watch_fired_refused [OF refused_world_facts(1,3,4,5,8,9,6)]
    by (simp add: refused_world_facts)
  show "watch_fired (''.'', test_zk_path) node_deleted_event (armed_world returning_watcher) =
     Ok ((armed_world returning_watcher)
           \<lparr>watches := [(''.'', test_zk_path)],
            trace := [DoConnect test_zk_hosts (second * 5), DoChildrenW test_zk_path,
                      DoChildrenW test_zk_path]\<rparr>)"
    using watch_fired_step [OF armed_world_facts(1,2,3,4) node_deleted_event_facts(1,2)
        armed_world_facts(5), of returning_watcher]
    by (simp add: armed_world_facts node_deleted_event_facts)
qed

text \<open>
  C8, amended. \<^verbatim>\<open>watchChildren\<close> on a client that is not connected fails with its
  not-connected error and changes nothing. On a connected client whose connector
  accepts the watch it arms one. When an armed watch fires, with any event, the
  activity that receives it first hands an error carried by the event to the error
  watcher, then calls the registered children watcher with the path of the event if
  the event is a children-changed one, and then, once the watchers it called have
  returned and whatever the event was, calls \<^verbatim>\<open>conn.ChildrenW\<close> again for the same
  watch path. If the connector accepts, the watch is armed again; so of two
  children-changed events in a row on the watch, the second calls the watcher again and
  re-arms again. If the connector refuses, the error goes to the error watcher and the
  watch is not armed again.
\<close>

theorem watchChildren_rearms:
  "(\<not> connected (zkc w) \<longrightarrow>
      watchChildren path w = Ok (Some (Error ''Not connected to server.''), w)) \<and>
   (connected (zkc w) \<and> conn (zkc w) = Some k \<and> wp = watchPath_of (zkc w) path \<and>
    ChildrenW k wp = Inr cs \<longrightarrow>
      watchChildren path w =
        Ok (None, w\<lparr>trace := trace w @ [DoChildrenW wp], watches := watches w @ [(path, wp)]\<rparr>)) \<and>
   ((path, wp) \<in> set (watches w) \<and> connected (zkc w) \<and> conn (zkc w) = Some k \<and>
    wp = watchPath_of (zkc w) path \<and> ChildrenW k wp = Inr cs \<and>
    error_watcher_returns (zkc w) e \<and> children_watcher_returns (zkc w) e \<longrightarrow>
      (\<exists>w'.
         watch_fired (path, wp) e w = Ok w' \<and> zkc w' = zkc w \<and>
         trace w' = trace w @ error_calls (zkc w) e @ children_calls (zkc w) e @ [DoChildrenW wp] \<and>
         (path, wp) \<in> set (watches w'))) \<and>
   ((path, wp) \<in> set (watches w) \<and> connected (zkc w) \<and> conn (zkc w) = Some k \<and>
    wp = watchPath_of (zkc w) path \<and> ChildrenW k wp = Inl err \<and>
    error_watcher_returns (zkc w) e \<and> children_watcher_returns (zkc w) e \<longrightarrow>
      (\<exists>w'.
         watch_fired (path, wp) e w = Ok w' \<and> zkc w' = zkc w \<and>
         trace w' = trace w @ error_calls (zkc w) e @ children_calls (zkc w) e @
           DoChildrenW wp #
           (case errorWatcher (zkc w) of None \<Rightarrow> [] | Some g \<Rightarrow> [DoErrorOccured err]) \<and>
         watches w' = remove1 (path, wp) (watches w))) \<and>
   ((path, wp) \<in> set (watches w) \<and> connected (zkc w) \<and> conn (zkc w) = Some k \<and>
    wp = watchPath_of (zkc w) path \<and> ChildrenW k wp = Inr cs \<and>
    childrenWatcher (zkc w) = Some fn \<and>
    Type e1 = EventNodeChildrenChanged \<and> fn (Path e1) \<and> error_watcher_returns (zkc w) e1 \<and>
    Type e2 = EventNodeChildrenChanged \<and> fn (Path e2) \<and> error_watcher_returns (zkc w) e2 \<longrightarrow>
      (\<exists>w1 w2.
         watch_fired (path, wp) e1 w = Ok w1 \<and>
         trace w1 = trace w @ error_calls (zkc w) e1 @ [DoChildrenChanged (Path e1), DoChildrenW wp] \<and>
         (path, wp) \<in> set (watches w1) \<and>
         watch_fired (path, wp) e2 w1 = Ok w2 \<and>
         trace w2 = trace w1 @ error_calls (zkc w) e2 @ [DoChildrenChanged (Path e2), DoChildrenW wp] \<and>
         (path, wp) \<in> set (watches w2)))"
proof (intro conjI impI)
  show "watchChildren path w = Ok (Some (Error ''Not connected to server.''), w)"
    if "\<not> connected (zkc w)"
    using that by (simp add: watchChildren_def)
next
  assume "connected (zkc w) \<and> conn (zkc w) = Some k \<and> wp = watchPath_of (zkc w) path \<and>
    ChildrenW k wp = Inr cs"
  then show "watchChildren path w =
        Ok (None, w\<lparr>trace := trace w @ [DoChildrenW wp], watches := watches w @ [(path, wp)]\<rparr>)"
    by (clarsimp simp: watchChildren_def Let_def)
next
  assume h: "(path, wp) \<in> set (watches w) \<and> connected (zkc w) \<and> conn (zkc w) = Some k \<and>
    wp = watchPath_of (zkc w) path \<and> ChildrenW k wp = Inr cs \<and>
    error_watcher_returns (zkc w) e \<and> children_watcher_returns (zkc w) e"
  then have "watch_fired (path, wp) e w =
     Ok (w\<lparr>watches := remove1 (path, wp) (watches w) @ [(path, wp)],
           trace := trace w @ error_calls (zkc w) e @ children_calls (zkc w) e @ [DoChildrenW wp]\<rparr>)"
    by (intro watch_fired_step) blast+
  then show "\<exists>w'.
         watch_fired (path, wp) e w = Ok w' \<and> zkc w' = zkc w \<and>
         trace w' = trace w @ error_calls (zkc w) e @ children_calls (zkc w) e @ [DoChildrenW wp] \<and>
         (path, wp) \<in> set (watches w')"
    by simp
next
  assume h: "(path, wp) \<in> set (watches w) \<and> connected (zkc w) \<and> conn (zkc w) = Some k \<and>
    wp = watchPath_of (zkc w) path \<and> ChildrenW k wp = Inl err \<and>
    error_watcher_returns (zkc w) e \<and> children_watcher_returns (zkc w) e"
  then have "watch_fired (path, wp) e w =
     Ok (w\<lparr>watches := remove1 (path, wp) (watches w),
           trace := trace w @ error_calls (zkc w) e @ children_calls (zkc w) e @
             DoChildrenW wp #
             (case errorWatcher (zkc w) of None \<Rightarrow> [] | Some g \<Rightarrow> [DoErrorOccured err])\<rparr>)"
    by (intro watch_fired_refused) blast+
  then show "\<exists>w'.
         watch_fired (path, wp) e w = Ok w' \<and> zkc w' = zkc w \<and>
         trace w' = trace w @ error_calls (zkc w) e @ children_calls (zkc w) e @
           DoChildrenW wp #
           (case errorWatcher (zkc w) of None \<Rightarrow> [] | Some g \<Rightarrow> [DoErrorOccured err]) \<and>
         watches w' = remove1 (path, wp) (watches w)"
    by simp
next
  assume h: "(path, wp) \<in> set (watches w) \<and> connected (zkc w) \<and> conn (zkc w) = Some k \<and>
    wp = watchPath_of (zkc w) path \<and> ChildrenW k wp = Inr cs \<and>
    childrenWatcher (zkc w) = Some fn \<and>
    Type e1 = EventNodeChildrenChanged \<and> fn (Path e1) \<and> error_watcher_returns (zkc w) e1 \<and>
    Type e2 = EventNodeChildrenChanged \<and> fn (Path e2) \<and> error_watcher_returns (zkc w) e2"
  from h have armed: "(path, wp) \<in> set (watches w)" and con: "connected (zkc w)"
    and k: "conn (zkc w) = Some k" and wp: "wp = watchPath_of (zkc w) path"
    and srv: "ChildrenW k wp = Inr cs" and cw: "childrenWatcher (zkc w) = Some fn"
    and e1: "Type e1 = EventNodeChildrenChanged" "fn (Path e1)" "error_watcher_returns (zkc w) e1"
    and e2: "Type e2 = EventNodeChildrenChanged" "fn (Path e2)" "error_watcher_returns (zkc w) e2"
    by blast+
  have r1: "children_watcher_returns (zkc w) e1" and r2: "children_watcher_returns (zkc w) e2"
    using cw e1 e2 by (simp_all add: children_watcher_returns_def)
  have cc: "children_calls (zkc w) e1 = [DoChildrenChanged (Path e1)]"
    "children_calls (zkc w) e2 = [DoChildrenChanged (Path e2)]"
    using cw e1 e2 by (simp_all add: children_calls_def)
  define w1 where "w1 = w\<lparr>watches := remove1 (path, wp) (watches w) @ [(path, wp)],
           trace := trace w @ error_calls (zkc w) e1 @ children_calls (zkc w) e1 @ [DoChildrenW wp]\<rparr>"
  define w2 where "w2 = w1\<lparr>watches := remove1 (path, wp) (watches w1) @ [(path, wp)],
           trace := trace w1 @ error_calls (zkc w1) e2 @ children_calls (zkc w1) e2 @ [DoChildrenW wp]\<rparr>"
  have z1: "zkc w1 = zkc w" by (simp add: w1_def)
  have s1: "watch_fired (path, wp) e1 w = Ok w1"
    unfolding w1_def by (rule watch_fired_step [OF armed con k wp e1(3) r1 srv])
  have a1: "(path, wp) \<in> set (watches w1)" by (simp add: w1_def)
  have s2: "watch_fired (path, wp) e2 w1 = Ok w2"
    unfolding w2_def
    by (rule watch_fired_step [OF a1, where k = k and cs = cs])
      (simp_all add: z1 con k wp [symmetric] e2 r2 srv)
  have a2: "(path, wp) \<in> set (watches w2)" by (simp add: w2_def)
  have t1: "trace w1 = trace w @ error_calls (zkc w) e1 @ [DoChildrenChanged (Path e1), DoChildrenW wp]"
    by (simp add: w1_def cc)
  have t2: "trace w2 = trace w1 @ error_calls (zkc w) e2 @ [DoChildrenChanged (Path e2), DoChildrenW wp]"
    by (simp add: w2_def z1 cc)
  from s1 t1 a1 s2 t2 a2
  show "\<exists>w1 w2.
         watch_fired (path, wp) e1 w = Ok w1 \<and>
         trace w1 = trace w @ error_calls (zkc w) e1 @ [DoChildrenChanged (Path e1), DoChildrenW wp] \<and>
         (path, wp) \<in> set (watches w1) \<and>
         watch_fired (path, wp) e2 w1 = Ok w2 \<and>
         trace w2 = trace w1 @ error_calls (zkc w) e2 @ [DoChildrenChanged (Path e2), DoChildrenW wp] \<and>
         (path, wp) \<in> set (watches w2)"
    by blast
qed

theorem watchChildren_rearms_witness:
  "watchChildren ''.'' (new_world makeZkClient) =
     Ok (Some (Error ''Not connected to server.''), new_world makeZkClient) \<and>
   watchChildren ''.'' (watching_client returning_watcher) = Ok (None, armed_world returning_watcher) \<and>
   (\<exists>w'.
      watch_fired (''.'', test_zk_path) node_deleted_event (armed_world returning_watcher) = Ok w' \<and>
      trace w' =
        [DoConnect test_zk_hosts (second * 5), DoChildrenW test_zk_path, DoChildrenW test_zk_path] \<and>
      (''.'', test_zk_path) \<in> set (watches w')) \<and>
   (\<exists>w'.
      watch_fired (''.'', test_zk_path) children_event refused_world = Ok w' \<and>
      trace w' =
        [DoConnect test_zk_hosts (second * 5), DoChildrenW test_zk_path,
         DoChildrenChanged test_zk_path, DoChildrenW test_zk_path] \<and>
      watches w' = []) \<and>
   (\<exists>w1 w2.
      watch_fired (''.'', test_zk_path) children_event (armed_world returning_watcher) = Ok w1 \<and>
      watch_fired (''.'', test_zk_path) children_event w1 = Ok w2 \<and>
      trace w2 =
        [DoConnect test_zk_hosts (second * 5), DoChildrenW test_zk_path,
         DoChildrenChanged test_zk_path, DoChildrenW test_zk_path,
         DoChildrenChanged test_zk_path, DoChildrenW test_zk_path] \<and>
      (''.'', test_zk_path) \<in> set (watches w2))"
proof -
  let ?aw = "armed_world returning_watcher"
  let ?mk = "makeMockConnector test_zk_path"
  have n: "\<not> connected (zkc (new_world makeZkClient))"
    by (simp add: new_world_def makeZkClient_def newZkClient_def)
  have p1: "watchChildren ''.'' (new_world makeZkClient) =
     Ok (Some (Error ''Not connected to server.''), new_world makeZkClient)"
    by (rule watchChildren_rearms [where w = "new_world makeZkClient" and path = "''.''",
          THEN conjunct1, THEN mp, OF n])
  have p2: "watchChildren ''.'' (watching_client returning_watcher) = Ok (None, ?aw)"
    by (rule watchChildren_armed_world)
  have h3: "(''.'', test_zk_path) \<in> set (watches ?aw) \<and> connected (zkc ?aw) \<and>
      conn (zkc ?aw) = Some ?mk \<and> test_zk_path = watchPath_of (zkc ?aw) ''.'' \<and>
      ChildrenW ?mk test_zk_path = Inr [test_zk_path] \<and>
      error_watcher_returns (zkc ?aw) node_deleted_event \<and>
      children_watcher_returns (zkc ?aw) node_deleted_event"
    by (intro conjI armed_world_facts(1,2,3,4,5) node_deleted_event_facts(1,2))
  have "\<exists>w'.
      watch_fired (''.'', test_zk_path) node_deleted_event ?aw = Ok w' \<and>
      zkc w' = zkc ?aw \<and>
      trace w' = trace ?aw @ error_calls (zkc ?aw) node_deleted_event @
         children_calls (zkc ?aw) node_deleted_event @ [DoChildrenW test_zk_path] \<and>
      (''.'', test_zk_path) \<in> set (watches w')"
    by (rule watchChildren_rearms [where w = ?aw and path = "''.''" and k = ?mk
          and wp = test_zk_path and cs = "[test_zk_path]" and e = node_deleted_event,
          THEN conjunct2, THEN conjunct2, THEN conjunct1, THEN mp, OF h3])
  then have p3: "\<exists>w'.
      watch_fired (''.'', test_zk_path) node_deleted_event ?aw = Ok w' \<and>
      trace w' =
        [DoConnect test_zk_hosts (second * 5), DoChildrenW test_zk_path, DoChildrenW test_zk_path] \<and>
      (''.'', test_zk_path) \<in> set (watches w')"
    by (auto simp: armed_world_facts(11) node_deleted_event_facts(3,4))
  have h4: "(''.'', test_zk_path) \<in> set (watches refused_world) \<and> connected (zkc refused_world) \<and>
      conn (zkc refused_world) = Some refusing_connector \<and>
      test_zk_path = watchPath_of (zkc refused_world) ''.'' \<and>
      ChildrenW refusing_connector test_zk_path = Inl (Error ''zk: node does not exist'') \<and>
      error_watcher_returns (zkc refused_world) children_event \<and>
      children_watcher_returns (zkc refused_world) children_event"
    by (intro conjI refused_world_facts(1,3,4,5,6,8,9))
  have "\<exists>w'.
      watch_fired (''.'', test_zk_path) children_event refused_world = Ok w' \<and>
      zkc w' = zkc refused_world \<and>
      trace w' = trace refused_world @ error_calls (zkc refused_world) children_event @
         children_calls (zkc refused_world) children_event @
         DoChildrenW test_zk_path #
         (case errorWatcher (zkc refused_world) of None \<Rightarrow> []
          | Some g \<Rightarrow> [DoErrorOccured (Error ''zk: node does not exist'')]) \<and>
      watches w' = remove1 (''.'', test_zk_path) (watches refused_world)"
    by (rule watchChildren_rearms [where w = refused_world and path = "''.''"
          and k = refusing_connector and wp = test_zk_path
          and err = "Error ''zk: node does not exist''" and e = children_event,
          THEN conjunct2, THEN conjunct2, THEN conjunct2, THEN conjunct1, THEN mp, OF h4])
  then have p4: "\<exists>w'.
      watch_fired (''.'', test_zk_path) children_event refused_world = Ok w' \<and>
      trace w' =
        [DoConnect test_zk_hosts (second * 5), DoChildrenW test_zk_path,
         DoChildrenChanged test_zk_path, DoChildrenW test_zk_path] \<and>
      watches w' = []"
    by (auto simp: refused_world_facts(2,7,10,11,12))
  have h5: "(''.'', test_zk_path) \<in> set (watches ?aw) \<and> connected (zkc ?aw) \<and>
      conn (zkc ?aw) = Some ?mk \<and> test_zk_path = watchPath_of (zkc ?aw) ''.'' \<and>
      ChildrenW ?mk test_zk_path = Inr [test_zk_path] \<and>
      childrenWatcher (zkc ?aw) = Some returning_watcher \<and>
      Type children_event = EventNodeChildrenChanged \<and> returning_watcher (Path children_event) \<and>
      error_watcher_returns (zkc ?aw) children_event \<and>
      Type children_event = EventNodeChildrenChanged \<and> returning_watcher (Path children_event) \<and>
      error_watcher_returns (zkc ?aw) children_event"
    by (intro conjI armed_world_facts(1,2,3,4,5,6,7,8)) (simp_all add: returning_watcher_def)
  have "\<exists>w1 w2.
      watch_fired (''.'', test_zk_path) children_event ?aw = Ok w1 \<and>
      trace w1 = trace ?aw @ error_calls (zkc ?aw) children_event @
         [DoChildrenChanged (Path children_event), DoChildrenW test_zk_path] \<and>
      (''.'', test_zk_path) \<in> set (watches w1) \<and>
      watch_fired (''.'', test_zk_path) children_event w1 = Ok w2 \<and>
      trace w2 = trace w1 @ error_calls (zkc ?aw) children_event @
         [DoChildrenChanged (Path children_event), DoChildrenW test_zk_path] \<and>
      (''.'', test_zk_path) \<in> set (watches w2)"
    by (rule watchChildren_rearms [where w = ?aw and path = "''.''" and k = ?mk
          and wp = test_zk_path and cs = "[test_zk_path]" and fn = returning_watcher
          and ?e1.0 = children_event and ?e2.0 = children_event,
          THEN conjunct2, THEN conjunct2, THEN conjunct2, THEN conjunct2, THEN mp, OF h5])
  then obtain w1 w2 where
    "watch_fired (''.'', test_zk_path) children_event ?aw = Ok w1"
    "watch_fired (''.'', test_zk_path) children_event w1 = Ok w2"
    "trace w2 = [DoConnect test_zk_hosts (second * 5), DoChildrenW test_zk_path,
         DoChildrenChanged test_zk_path, DoChildrenW test_zk_path,
         DoChildrenChanged test_zk_path, DoChildrenW test_zk_path]"
    "(''.'', test_zk_path) \<in> set (watches w2)"
    by (auto simp: armed_world_facts(9,10,11))
  then have p5: "\<exists>w1 w2.
      watch_fired (''.'', test_zk_path) children_event ?aw = Ok w1 \<and>
      watch_fired (''.'', test_zk_path) children_event w1 = Ok w2 \<and>
      trace w2 =
        [DoConnect test_zk_hosts (second * 5), DoChildrenW test_zk_path,
         DoChildrenChanged test_zk_path, DoChildrenW test_zk_path,
         DoChildrenChanged test_zk_path, DoChildrenW test_zk_path] \<and>
      (''.'', test_zk_path) \<in> set (watches w2)"
    by blast
  show ?thesis
    by (intro conjI p1 p2 p3 p4 p5)
qed

text \<open>
  C9, as stated, fails: the receiving activity calls the children watcher before it
  re-arms. With a watcher that never returns, a children-changed event on the armed
  watch of the test fixture leaves no watch armed, and the trace ends with the call of
  the watcher: no further \<^verbatim>\<open>ChildrenW\<close> follows it.
\<close>

theorem rearm_independent_of_callback_counterexample:
  "watch_fired (''.'', test_zk_path) children_event (armed_world blocking_watcher) =
     Ok ((armed_world blocking_watcher)
           \<lparr>watches := [],
            trace := [DoConnect test_zk_hosts (second * 5), DoChildrenW test_zk_path,
                      DoChildrenChanged test_zk_path]\<rparr>)"
  by (simp add: watch_fired_def armed_world_def watching_client_def connected_world_def
      children_event_def childrenChanged_def blocking_watcher_def makeZkClient_def newZkClient_def)

text \<open>
  C9, amended. When an armed watch fires with a children-changed event and a children
  watcher is registered, the receiving activity calls the watcher first. If the watcher
  never returns, nothing else happens: the watch is gone and \<^verbatim>\<open>ChildrenW\<close> is not
  called. If it returns, on a connected client, the call of \<^verbatim>\<open>ChildrenW\<close> for the same
  watch path follows the call of the watcher in the trace.
\<close>

theorem callback_precedes_rearm:
  "(path, wp) \<in> set (watches w) \<and> Type e = EventNodeChildrenChanged \<and>
   childrenWatcher (zkc w) = Some fn \<and> error_watcher_returns (zkc w) e \<longrightarrow>
     (\<not> fn (Path e) \<longrightarrow>
        watch_fired (path, wp) e w =
          Ok (w\<lparr>watches := remove1 (path, wp) (watches w),
                trace := trace w @ error_calls (zkc w) e @ [DoChildrenChanged (Path e)]\<rparr>)) \<and>
     (fn (Path e) \<and> connected (zkc w) \<and> conn (zkc w) = Some k \<longrightarrow>
        (\<exists>w' rest.
           watch_fired (path, wp) e w = Ok w' \<and>
           trace w' = trace w @ error_calls (zkc w) e @
             DoChildrenChanged (Path e) # DoChildrenW (watchPath_of (zkc w) path) # rest))"
proof (intro impI conjI)
  assume h: "(path, wp) \<in> set (watches w) \<and> Type e = EventNodeChildrenChanged \<and>
   childrenWatcher (zkc w) = Some fn \<and> error_watcher_returns (zkc w) e"
  let ?w0 = "w\<lparr>watches := remove1 (path, wp) (watches w)\<rparr>"
  have ew: "error_watcher_returns (zkc ?w0) e" using h by simp
  note sp = errorOccured_split [OF ew]
  {
    assume "\<not> fn (Path e)"
    with h sp show "watch_fired (path, wp) e w =
          Ok (w\<lparr>watches := remove1 (path, wp) (watches w),
                trace := trace w @ error_calls (zkc w) e @ [DoChildrenChanged (Path e)]\<rparr>)"
      by (simp add: watch_fired_def childrenChanged_def Let_def)
  }
  {
    assume g: "fn (Path e) \<and> connected (zkc w) \<and> conn (zkc w) = Some k"
    show "\<exists>w' rest.
           watch_fired (path, wp) e w = Ok w' \<and>
           trace w' = trace w @ error_calls (zkc w) e @
             DoChildrenChanged (Path e) # DoChildrenW (watchPath_of (zkc w) path) # rest"
    proof (cases "ChildrenW k (watchPath_of (zkc w) path)")
      case (Inl err)
      with h g sp show ?thesis
        by (cases "errorWatcher (zkc w)")
          (simp_all add: watch_fired_def childrenChanged_def watchChildren_def Let_def
            errorOccured_def)
    next
      case (Inr cs)
      with h g sp show ?thesis
        by (simp add: watch_fired_def childrenChanged_def watchChildren_def Let_def)
    qed
  }
qed

theorem callback_precedes_rearm_witness:
  "watch_fired (''.'', test_zk_path) children_event (armed_world blocking_watcher) =
     Ok ((armed_world blocking_watcher)
           \<lparr>watches := [],
            trace := [DoConnect test_zk_hosts (second * 5), DoChildrenW test_zk_path,
                      DoChildrenChanged test_zk_path]\<rparr>) \<and>
   (\<exists>w' rest.
      watch_fired (''.'', test_zk_path) children_event (armed_world returning_watcher) = Ok w' \<and>
      trace w' =
        DoConnect test_zk_hosts (second * 5) # DoChildrenW test_zk_path #
        DoChildrenChanged test_zk_path # DoChildrenW test_zk_path # rest)"
proof -
  have a: "watch_fired (''.'', test_zk_path) children_event (armed_world blocking_watcher) =
          Ok ((armed_world blocking_watcher)
                \<lparr>watches := remove1 (''.'', test_zk_path) (watches (armed_world blocking_watcher)),
                 trace := trace (armed_world blocking_watcher) @
                   error_calls (zkc (armed_world blocking_watcher)) children_event @
                   [DoChildrenChanged (Path children_event)]\<rparr>)"
    using callback_precedes_rearm [where w = "armed_world blocking_watcher" and path = "''.''"
        and wp = test_zk_path and e = children_event and fn = blocking_watcher]
      armed_world_facts blocking_watcher_def
    by blast
  have b: "\<exists>w' rest.
           watch_fired (''.'', test_zk_path) children_event (armed_world returning_watcher) = Ok w' \<and>
           trace w' = trace (armed_world returning_watcher) @
             error_calls (zkc (armed_world returning_watcher)) children_event @
             DoChildrenChanged (Path children_event) #
             DoChildrenW (watchPath_of (zkc (armed_world returning_watcher)) ''.'') # rest"
    using callback_precedes_rearm [where w = "armed_world returning_watcher" and path = "''.''"
        and wp = test_zk_path and e = children_event and fn = returning_watcher
        and k = "makeMockConnector test_zk_path"]
      armed_world_facts returning_watcher_def
    by blast
  have w: "watches (armed_world blocking_watcher) = [(''.'', test_zk_path)]"
    by (simp add: armed_world_def)
  from a b show ?thesis
    by (simp add: armed_world_facts armed_world_facts(4) [symmetric] w)
qed

subsection \<open>disconnect and the loss of the session\<close>

text \<open>
  C10. \<^verbatim>\<open>disconnect\<close> returns nil and the client it was given. A session event with
  state \<open>Disconnected\<close> or \<open>Expired\<close> leaves every field of the client as it was, so
  \<open>connected\<close> stays true; afterwards \<^verbatim>\<open>list\<close> and \<^verbatim>\<open>data\<close> answer what the
  connector's \<^verbatim>\<open>Children\<close> and \<^verbatim>\<open>Get\<close> answer, and \<^verbatim>\<open>watchChildren\<close> calls
  \<^verbatim>\<open>ChildrenW\<close>: none of them stops at its not-connected guard. No session event at
  all, whatever its state, takes \<open>connected\<close> from true to false.
\<close>

theorem disconnect_noop:
  "disconnect c = (None, c) \<and>
   ((State e = StateDisconnected \<or> State e = StateExpired) \<and>
    connected (zkc w) \<and> conn (zkc w) = Some k \<longrightarrow>
      (\<exists>w'. session_event i e w = Ok w' \<and> zkc w' = zkc w \<and> connected (zkc w') \<and>
         list (zkc w') p =
           (case Children k p of Inl err \<Rightarrow> Ok (Inl err) | Inr cs \<Rightarrow> Ok (Inr (sort_Strings cs))) \<and>
         data (zkc w') p =
           (case Get k p of Inl err \<Rightarrow> Ok (Inl err) | Inr d \<Rightarrow> Ok (Inr d)) \<and>
         (\<exists>r w''. watchChildren p w' = Ok (r, w'') \<and>
            trace w'' = trace w' @ [DoChildrenW (watchPath_of (zkc w') p)]))) \<and>
   (connected (zkc w) \<and> session_event i e w = Ok v \<longrightarrow> connected (zkc v))"
proof (intro conjI impI)
  show "disconnect c = (None, c)" by (simp add: disconnect_def)
next
  assume "connected (zkc w) \<and> session_event i e w = Ok v"
  then show "connected (zkc v)"
    by (auto simp: session_event_def disconnect_def errorOccured_def Let_def
        split: session.splits option.splits prod.splits if_splits State.splits)
next
  assume h: "(State e = StateDisconnected \<or> State e = StateExpired) \<and>
    connected (zkc w) \<and> conn (zkc w) = Some k"
  have "\<exists>w'. session_event i e w = Ok w' \<and> zkc w' = zkc w"
    using h
    by (auto simp: session_event_def disconnect_def errorOccured_def Let_def
        split: session.splits option.splits prod.splits)
  then obtain w' where s: "session_event i e w = Ok w'" and z: "zkc w' = zkc w" by blast
  have l: "list (zkc w') p =
           (case Children k p of Inl err \<Rightarrow> Ok (Inl err) | Inr cs \<Rightarrow> Ok (Inr (sort_Strings cs)))"
    using h z by (simp add: list_def)
  have d: "data (zkc w') p =
           (case Get k p of Inl err \<Rightarrow> Ok (Inl err) | Inr d \<Rightarrow> Ok (Inr d))"
    using h z by (simp add: data_def)
  have wc: "\<exists>r w''. watchChildren p w' = Ok (r, w'') \<and>
            trace w'' = trace w' @ [DoChildrenW (watchPath_of (zkc w') p)]"
    using h z by (auto simp: watchChildren_def Let_def split: sum.splits)
  from s z l d wc h
  show "\<exists>w'. session_event i e w = Ok w' \<and> zkc w' = zkc w \<and> connected (zkc w') \<and>
         list (zkc w') p =
           (case Children k p of Inl err \<Rightarrow> Ok (Inl err) | Inr cs \<Rightarrow> Ok (Inr (sort_Strings cs))) \<and>
         data (zkc w') p =
           (case Get k p of Inl err \<Rightarrow> Ok (Inl err) | Inr d \<Rightarrow> Ok (Inr d)) \<and>
         (\<exists>r w''. watchChildren p w' = Ok (r, w'') \<and>
            trace w'' = trace w' @ [DoChildrenW (watchPath_of (zkc w') p)])"
    by auto
qed

lemma session_lost_connected_world:
  "session_event 0 disconnected_event connected_world = Ok connected_world"
  "session_event 0 expired_event connected_world = Ok connected_world"
  by (simp_all add: session_event_def connected_world_def disconnected_event_def
      expired_event_def disconnect_def)

theorem disconnect_noop_witness:
  "session_event 0 disconnected_event connected_world = Ok connected_world \<and>
   session_event 0 expired_event connected_world = Ok connected_world \<and>
   connected (zkc connected_world) \<and>
   list (zkc connected_world) test_zk_path = Ok (Inr (sort_Strings [''x'', ''a'', ''d''])) \<and>
   data (zkc connected_world) test_zk_path = Ok (Inr master_info_data) \<and>
   (\<exists>r w''. watchChildren ''.'' connected_world = Ok (r, w'') \<and>
      trace w'' = trace connected_world @ [DoChildrenW test_zk_path])"
proof -
  have st: "State disconnected_event = StateDisconnected \<or> State disconnected_event = StateExpired"
    by (simp add: disconnected_event_def)
  have g: "Get (makeMockConnector test_zk_path) test_zk_path = Inr master_info_data"
    by (simp add: makeMockConnector_def)
  have wp: "watchPath_of (zkc connected_world) ''.'' = test_zk_path"
    by (simp add: watchPath_of_def connected_world_def makeZkClient_def newZkClient_def)
  have l: "\<exists>w'. session_event 0 disconnected_event connected_world = Ok w' \<and>
         zkc w' = zkc connected_world \<and> connected (zkc w') \<and>
         list (zkc w') test_zk_path =
           (case Children (makeMockConnector test_zk_path) test_zk_path of
              Inl err \<Rightarrow> Ok (Inl err) | Inr cs \<Rightarrow> Ok (Inr (sort_Strings cs))) \<and>
         data (zkc w') test_zk_path =
           (case Get (makeMockConnector test_zk_path) test_zk_path of
              Inl err \<Rightarrow> Ok (Inl err) | Inr d \<Rightarrow> Ok (Inr d)) \<and>
         (\<exists>r w''. watchChildren test_zk_path w' = Ok (r, w'') \<and>
            trace w'' = trace w' @ [DoChildrenW (watchPath_of (zkc w') test_zk_path)])"
    using disconnect_noop [where e = disconnected_event and w = connected_world
        and k = "makeMockConnector test_zk_path" and i = 0 and p = test_zk_path]
      st connected_world_facts(1,2)
    by blast
  have l2: "\<exists>w'. session_event 0 disconnected_event connected_world = Ok w' \<and>
         (\<exists>r w''. watchChildren ''.'' w' = Ok (r, w'') \<and>
            trace w'' = trace w' @ [DoChildrenW (watchPath_of (zkc w') ''.'')])"
    using disconnect_noop [where e = disconnected_event and w = connected_world
        and k = "makeMockConnector test_zk_path" and i = 0 and p = "''.''"]
      st connected_world_facts(1,2)
    by blast
  from l l2 show ?thesis
    by (simp add: session_lost_connected_world connected_world_facts g wp)
qed

section \<open>Properties of the driver\<close>

subsection \<open>The model against the repository's tests\<close>

lemma started_driver_facts:
  "status started_driver = DRIVER_RUNNING"
  "\<not> stopped started_driver"
  "\<not> stopCh_closed started_driver"
  by (simp_all add: started_driver_def unstarted_driver_def Start_def NewMesosSchedulerDriver_def
      NewMockedMessenger_def Send_def)

lemma send_failing_driver_facts:
  "status send_failing_driver = DRIVER_RUNNING"
  "send_result (messenger send_failing_driver) = Some (Error ''Unable to send message'')"
  "\<not> stopCh_closed send_failing_driver"
  by (simp_all add: send_failing_driver_def started_driver_facts)

lemma driver_tests_pass:
  "TestSchedulerDriverStartOK"
  "TestSchedulerDriverStartWithMessengerFailure"
  "TestSchedulerDriverJoinUnstarted"
  "TestSchedulerDriverStopUnstarted"
  "TestSchdulerDriverStopOK"
  "TestSchdulerDriverAbort"
  "TestLunchTasksUnstarted"
  "TestLaunchTasksWithError"
  "TestKillTask"
  by (simp_all add: TestSchedulerDriverStartOK_def TestSchedulerDriverStartWithMessengerFailure_def
      TestSchedulerDriverJoinUnstarted_def
      TestSchedulerDriverStopUnstarted_def TestSchdulerDriverStopOK_def TestSchdulerDriverAbort_def
      TestLunchTasksUnstarted_def TestLaunchTasksWithError_def TestKillTask_def
      unstarted_driver_def messenger_failure_driver_def
      NewMesosSchedulerDriver_def NewMockedMessenger_def Start_def Stop_def Abort_def Join_def
      Run_def LaunchTasks_def KillTask_def Send_def Let_def)

text \<open>
  The test of a failed registration asserts \<open>NOT_STARTED\<close> and \<open>stopped\<close> still true
  after \<^verbatim>\<open>Start\<close>. Sections 4.2 and 7 of the spec say \<open>RUNNING\<close>, and the model follows
  the spec: the assertions of that test do not hold on it.
\<close>

lemma registration_failure_test_differs:
  "\<not> TestSchedulerDriverStartWithRegistrationFailure"
  by (simp add: TestSchedulerDriverStartWithRegistrationFailure_def registration_failure_driver_def
      NewMesosSchedulerDriver_def NewMockedMessenger_def Start_def Send_def)

subsection \<open>Start\<close>

text \<open>
  C1. If the Messenger starts and the send of the \<open>RegisterFramework\<close> message fails,
  \<^verbatim>\<open>Start\<close> on a driver that is \<open>NOT_STARTED\<close> still returns \<open>RUNNING\<close>: the status
  field is \<open>RUNNING\<close>, \<open>stopped\<close> is false, and the message was handed to the
  Messenger once.
\<close>

theorem Start_registration_failure:
  assumes "status d = DRIVER_NOT_STARTED"
    and "start_result (messenger d) = None" and "send_result (messenger d) = Some err"
  shows "fst (Start d) = DRIVER_RUNNING \<and> status (snd (Start d)) = DRIVER_RUNNING \<and>
         \<not> stopped (snd (Start d)) \<and>
         fst (Send RegisterFrameworkMessage ((messenger d)\<lparr>running := True\<rparr>)) = Some err \<and>
         sends (messenger (snd (Start d))) = sends (messenger d) @ [RegisterFrameworkMessage]"
  using assms by (simp add: Start_def Send_def)

theorem Start_registration_failure_witness:
  "status registration_failure_driver = DRIVER_NOT_STARTED \<and>
   start_result (messenger registration_failure_driver) = None \<and>
   send_result (messenger registration_failure_driver) = Some (Error ''messenger failed to send'') \<and>
   fst (Start registration_failure_driver) = DRIVER_RUNNING \<and>
   status (snd (Start registration_failure_driver)) = DRIVER_RUNNING \<and>
   \<not> stopped (snd (Start registration_failure_driver)) \<and>
   sends (messenger (snd (Start registration_failure_driver))) = [RegisterFrameworkMessage]"
proof -
  have h: "status registration_failure_driver = DRIVER_NOT_STARTED"
    "start_result (messenger registration_failure_driver) = None"
    "send_result (messenger registration_failure_driver) = Some (Error ''messenger failed to send'')"
    by (simp_all add: registration_failure_driver_def NewMesosSchedulerDriver_def
        NewMockedMessenger_def)
  have e: "sends (messenger registration_failure_driver) = []"
    by (simp add: registration_failure_driver_def NewMesosSchedulerDriver_def
        NewMockedMessenger_def)
  from h e Start_registration_failure [OF h] show ?thesis by simp
qed

text \<open>
  C2. If the Messenger fails to start, \<^verbatim>\<open>Start\<close> on a new driver returns
  \<open>NOT_STARTED\<close> and the driver is as it was: status \<open>NOT_STARTED\<close>, \<open>stopped\<close> true.
\<close>

theorem Start_messenger_failure:
  assumes "status d = DRIVER_NOT_STARTED" and "stopped d"
    and "start_result (messenger d) = Some err"
  shows "Start d = (DRIVER_NOT_STARTED, d) \<and> status (snd (Start d)) = DRIVER_NOT_STARTED \<and>
         stopped (snd (Start d))"
  using assms by (simp add: Start_def)

theorem Start_messenger_failure_witness:
  "status messenger_failure_driver = DRIVER_NOT_STARTED \<and> stopped messenger_failure_driver \<and>
   start_result (messenger messenger_failure_driver) = Some (Error ''Failed to start messenger'') \<and>
   Start messenger_failure_driver = (DRIVER_NOT_STARTED, messenger_failure_driver) \<and>
   status (snd (Start messenger_failure_driver)) = DRIVER_NOT_STARTED \<and>
   stopped (snd (Start messenger_failure_driver))"
proof -
  have h: "status messenger_failure_driver = DRIVER_NOT_STARTED"
    "stopped messenger_failure_driver"
    "start_result (messenger messenger_failure_driver) = Some (Error ''Failed to start messenger'')"
    by (simp_all add: messenger_failure_driver_def NewMesosSchedulerDriver_def
        NewMockedMessenger_def)
  from h Start_messenger_failure [OF h] show ?thesis by simp
qed

subsection \<open>Task control\<close>

text \<open>
  C3. On a driver whose status is \<open>RUNNING\<close>, \<^verbatim>\<open>LaunchTasks\<close> and \<^verbatim>\<open>KillTask\<close>
  return \<open>RUNNING\<close> and leave the status \<open>RUNNING\<close>, whatever the Messenger answers
  to the send; the witness is a driver whose sends fail.
\<close>

theorem task_control_fire_and_forget:
  assumes "status d = DRIVER_RUNNING"
  shows "fst (LaunchTasks offerID tasks filters d) = DRIVER_RUNNING \<and>
         status (snd (LaunchTasks offerID tasks filters d)) = DRIVER_RUNNING \<and>
         fst (KillTask taskID d) = DRIVER_RUNNING \<and>
         status (snd (KillTask taskID d)) = DRIVER_RUNNING"
  using assms by (simp add: LaunchTasks_def KillTask_def Send_def)

theorem task_control_fire_and_forget_witness:
  "status send_failing_driver = DRIVER_RUNNING \<and>
   fst (Send (LaunchTasksMessage ''offer'' [''simple-task''] '''') (messenger send_failing_driver)) =
     Some (Error ''Unable to send message'') \<and>
   fst (LaunchTasks ''offer'' [''simple-task''] '''' send_failing_driver) = DRIVER_RUNNING \<and>
   status (snd (LaunchTasks ''offer'' [''simple-task''] '''' send_failing_driver)) = DRIVER_RUNNING \<and>
   fst (KillTask ''test-task-1'' send_failing_driver) = DRIVER_RUNNING \<and>
   status (snd (KillTask ''test-task-1'' send_failing_driver)) = DRIVER_RUNNING"
  using task_control_fire_and_forget [OF send_failing_driver_facts(1)]
    send_failing_driver_facts
  by (simp add: Send_def)

text \<open>
  C4. On a driver whose status is \<open>NOT_STARTED\<close>, \<^verbatim>\<open>LaunchTasks\<close> and \<^verbatim>\<open>KillTask\<close>
  return \<open>NOT_STARTED\<close> and the driver unchanged (no message is handed to the
  Messenger), and \<^verbatim>\<open>Join\<close> returns \<open>NOT_STARTED\<close> at once: with any schedule of
  other calls, the empty one included, and without performing any of them.
\<close>

theorem unstarted_guard:
  assumes "status d = DRIVER_NOT_STARTED"
  shows "LaunchTasks offerID tasks filters d = (DRIVER_NOT_STARTED, d) \<and>
         KillTask taskID d = (DRIVER_NOT_STARTED, d) \<and>
         Join d cs = Some (DRIVER_NOT_STARTED, d)"
  using assms by (simp add: LaunchTasks_def KillTask_def Join_def)

theorem unstarted_guard_witness:
  "status unstarted_driver = DRIVER_NOT_STARTED \<and>
   LaunchTasks '''' [] '''' unstarted_driver = (DRIVER_NOT_STARTED, unstarted_driver) \<and>
   KillTask ''test-task-1'' unstarted_driver = (DRIVER_NOT_STARTED, unstarted_driver) \<and>
   Join unstarted_driver [CallStop False] = Some (DRIVER_NOT_STARTED, unstarted_driver)"
proof -
  have h: "status unstarted_driver = DRIVER_NOT_STARTED"
    by (simp add: unstarted_driver_def NewMesosSchedulerDriver_def)
  from h unstarted_guard [OF h] show ?thesis by simp
qed

subsection \<open>Abort, Stop and the waiting caller\<close>

lemma task_control_keeps_running:
  "task_control c \<Longrightarrow> status d = DRIVER_RUNNING \<Longrightarrow>
     status (snd (perform c d)) = DRIVER_RUNNING \<and>
     stopCh_closed (snd (perform c d)) = stopCh_closed d"
  by (cases c) (simp_all add: task_control_def LaunchTasks_def KillTask_def Send_def)

lemma await_stop_task_control:
  "list_all task_control pre \<Longrightarrow> status d = DRIVER_RUNNING \<Longrightarrow> \<not> stopCh_closed d \<Longrightarrow>
     \<exists>d'. status d' = DRIVER_RUNNING \<and> \<not> stopCh_closed d' \<and>
          await_stop d (pre @ c # rest) = await_stop d' (c # rest)"
proof (induction pre arbitrary: d)
  case Nil
  then show ?case by auto
next
  case (Cons a pre)
  from Cons.prems have a: "task_control a" and pre: "list_all task_control pre" by simp_all
  from task_control_keeps_running [OF a Cons.prems(2)] Cons.prems(3)
  have r: "status (snd (perform a d)) = DRIVER_RUNNING" "\<not> stopCh_closed (snd (perform a d))"
    by simp_all
  from Cons.IH [OF pre r] obtain d' where
    "status d' = DRIVER_RUNNING" "\<not> stopCh_closed d'"
    "await_stop (snd (perform a d)) (pre @ c # rest) = await_stop d' (c # rest)"
    by blast
  with Cons.prems(3) show ?case by auto
qed

lemma await_stop_closed: "stopCh_closed d \<Longrightarrow> await_stop d cs = Some (status d, d)"
  by (cases cs) simp_all

lemma Join_Abort:
  assumes "status d = DRIVER_RUNNING" and "\<not> stopCh_closed d" and "list_all task_control pre"
  shows "\<exists>d'. Join d (pre @ CallAbort # rest) = Some (DRIVER_ABORTED, d') \<and>
              status d' = DRIVER_ABORTED \<and> stopped d'"
proof -
  from await_stop_task_control [OF assms(3) assms(1) assms(2), of CallAbort rest]
  obtain d' where d': "status d' = DRIVER_RUNNING" "\<not> stopCh_closed d'"
    "await_stop d (pre @ CallAbort # rest) = await_stop d' (CallAbort # rest)" by blast
  have c: "stopCh_closed (snd (Abort d'))" using d'(1) by (simp add: Abort_def)
  have "await_stop d' (CallAbort # rest) = Some (status (snd (Abort d')), snd (Abort d'))"
    using d'(2) await_stop_closed [OF c] by simp
  with d' assms(1) show ?thesis by (simp add: Join_def Abort_def)
qed

lemma Join_Stop:
  assumes "status d = DRIVER_RUNNING" and "\<not> stopCh_closed d" and "list_all task_control pre"
  shows "\<exists>d'. Join d (pre @ CallStop failover # rest) = Some (DRIVER_STOPPED, d') \<and>
              status d' = DRIVER_STOPPED \<and> stopped d'"
proof -
  from await_stop_task_control [OF assms(3) assms(1) assms(2), of "CallStop failover" rest]
  obtain d' where d': "status d' = DRIVER_RUNNING" "\<not> stopCh_closed d'"
    "await_stop d (pre @ CallStop failover # rest) = await_stop d' (CallStop failover # rest)"
    by blast
  have c: "stopCh_closed (snd (Stop failover d'))" using d'(1) by (simp add: Stop_def Let_def)
  have "await_stop d' (CallStop failover # rest) =
      Some (status (snd (Stop failover d')), snd (Stop failover d'))"
    using d'(2) await_stop_closed [OF c] by simp
  with d' assms(1) show ?thesis by (simp add: Join_def Stop_def Let_def)
qed

lemma Start_running:
  assumes "status d0 = DRIVER_NOT_STARTED" and "start_result (messenger d0) = None"
    and "send_result (messenger d0) = None"
  shows "status (snd (Start d0)) = DRIVER_RUNNING" and "\<not> stopCh_closed (snd (Start d0))"
  using assms by (simp_all add: Start_def Send_def)

text \<open>
  C5. On a \<open>RUNNING\<close> driver \<^verbatim>\<open>Abort\<close> returns \<open>ABORTED\<close> and leaves status
  \<open>ABORTED\<close>, \<open>stopped\<close> true and \<open>connected\<close> false; \<^verbatim>\<open>Stop\<close> returns \<open>STOPPED\<close>
  and leaves status \<open>STOPPED\<close>, \<open>stopped\<close> true. Both are terminal: a later
  \<^verbatim>\<open>Start\<close>, \<^verbatim>\<open>Stop\<close> or \<^verbatim>\<open>Abort\<close> returns the same status and changes nothing. A caller waiting in \<^verbatim>\<open>Join\<close> while
  other activities issue task-control calls and then \<^verbatim>\<open>Abort\<close> (or \<^verbatim>\<open>Stop\<close>) returns
  \<open>ABORTED\<close> (or \<open>STOPPED\<close>), the value the terminating call returned; so does
  \<^verbatim>\<open>Run\<close> on a new driver whose Messenger starts and sends.
\<close>

theorem Abort_and_Stop_terminal:
  assumes "status d = DRIVER_RUNNING" and "\<not> stopCh_closed d" and "list_all task_control pre"
    and "status d0 = DRIVER_NOT_STARTED" and "start_result (messenger d0) = None"
    and "send_result (messenger d0) = None"
  shows "fst (Abort d) = DRIVER_ABORTED \<and> status (snd (Abort d)) = DRIVER_ABORTED \<and>
         stopped (snd (Abort d)) \<and> \<not> driver_connected (snd (Abort d)) \<and>
         fst (Stop failover d) = DRIVER_STOPPED \<and> status (snd (Stop failover d)) = DRIVER_STOPPED \<and>
         stopped (snd (Stop failover d)) \<and>
         Start (snd (Abort d)) = (DRIVER_ABORTED, snd (Abort d)) \<and>
         Stop failover (snd (Abort d)) = (DRIVER_ABORTED, snd (Abort d)) \<and>
         Start (snd (Stop failover d)) = (DRIVER_STOPPED, snd (Stop failover d)) \<and>
         Abort (snd (Stop failover d)) = (DRIVER_STOPPED, snd (Stop failover d)) \<and>
         (\<exists>d'. Join d (pre @ CallAbort # rest) = Some (DRIVER_ABORTED, d') \<and>
               status d' = DRIVER_ABORTED \<and> stopped d') \<and>
         (\<exists>d'. Join d (pre @ CallStop failover # rest) = Some (DRIVER_STOPPED, d') \<and>
               status d' = DRIVER_STOPPED \<and> stopped d') \<and>
         (\<exists>d'. Run d0 (pre @ CallAbort # rest) = Some (DRIVER_ABORTED, d') \<and>
               status d' = DRIVER_ABORTED \<and> stopped d') \<and>
         (\<exists>d'. Run d0 (pre @ CallStop failover # rest) = Some (DRIVER_STOPPED, d') \<and>
               status d' = DRIVER_STOPPED \<and> stopped d')"
proof -
  have a: "fst (Abort d) = DRIVER_ABORTED \<and> status (snd (Abort d)) = DRIVER_ABORTED \<and>
         stopped (snd (Abort d)) \<and> \<not> driver_connected (snd (Abort d))"
    using assms(1) by (simp add: Abort_def)
  have s: "fst (Stop failover d) = DRIVER_STOPPED \<and> status (snd (Stop failover d)) = DRIVER_STOPPED \<and>
         stopped (snd (Stop failover d))"
    using assms(1) by (simp add: Stop_def Let_def)
  have t: "Start (snd (Abort d)) = (DRIVER_ABORTED, snd (Abort d)) \<and>
         Stop failover (snd (Abort d)) = (DRIVER_ABORTED, snd (Abort d)) \<and>
         Start (snd (Stop failover d)) = (DRIVER_STOPPED, snd (Stop failover d)) \<and>
         Abort (snd (Stop failover d)) = (DRIVER_STOPPED, snd (Stop failover d))"
    using assms(1) by (simp add: Abort_def Stop_def Start_def Let_def)
  note r = Start_running [OF assms(4) assms(5) assms(6)]
  have ra: "\<exists>d'. Run d0 (pre @ CallAbort # rest) = Some (DRIVER_ABORTED, d') \<and>
               status d' = DRIVER_ABORTED \<and> stopped d'"
    unfolding Run_def by (rule Join_Abort [OF r assms(3)])
  have rs: "\<exists>d'. Run d0 (pre @ CallStop failover # rest) = Some (DRIVER_STOPPED, d') \<and>
               status d' = DRIVER_STOPPED \<and> stopped d'"
    unfolding Run_def by (rule Join_Stop [OF r assms(3)])
  from a s t Join_Abort [OF assms(1) assms(2) assms(3), of rest]
    Join_Stop [OF assms(1) assms(2) assms(3), of failover rest] ra rs
  show ?thesis by blast
qed

theorem Abort_and_Stop_terminal_witness:
  "fst (Abort started_driver) = DRIVER_ABORTED \<and>
   status (snd (Abort started_driver)) = DRIVER_ABORTED \<and>
   stopped (snd (Abort started_driver)) \<and>
   fst (Stop False started_driver) = DRIVER_STOPPED \<and>
   status (snd (Stop False started_driver)) = DRIVER_STOPPED \<and>
   map_option fst
     (Join started_driver
        [CallLaunchTasks ''offer'' [''simple-task''] '''', CallKillTask ''test-task-1'', CallAbort]) =
     Some DRIVER_ABORTED \<and>
   map_option fst
     (Join started_driver
        [CallLaunchTasks ''offer'' [''simple-task''] '''', CallKillTask ''test-task-1'',
         CallStop False]) =
     Some DRIVER_STOPPED \<and>
   map_option fst (Run unstarted_driver [CallKillTask ''test-task-1'', CallAbort]) =
     Some DRIVER_ABORTED \<and>
   map_option fst (Run unstarted_driver [CallKillTask ''test-task-1'', CallStop False]) =
     Some DRIVER_STOPPED"
proof -
  have u: "status unstarted_driver = DRIVER_NOT_STARTED"
    "start_result (messenger unstarted_driver) = None"
    "send_result (messenger unstarted_driver) = None"
    by (simp_all add: unstarted_driver_def NewMesosSchedulerDriver_def NewMockedMessenger_def)
  have p1: "list_all task_control
      [CallLaunchTasks ''offer'' [''simple-task''] '''', CallKillTask ''test-task-1'']"
    by (simp add: task_control_def)
  have p2: "list_all task_control [CallKillTask ''test-task-1'']"
    by (simp add: task_control_def)
  from Abort_and_Stop_terminal [OF started_driver_facts(1) started_driver_facts(3) p1 u,
      of False "[]"]
    Abort_and_Stop_terminal [OF started_driver_facts(1) started_driver_facts(3) p2 u,
      of False "[]"]
  show ?thesis by auto
qed

end
